theory Spec2Isabelle
  imports Main "HOL-Library.Sublist"
begin

section \<open>JavaScript values shared by the flows\<close>

text \<open>
  A JavaScript string is modelled by its UTF-8 bytes, a list of 8-bit characters (the
  string is well formed: no lone surrogate). Equality, concatenation, \<open>join\<close> and
  \<open>includes\<close> are the same on the bytes as on the string. A string is truthy when it
  is not empty; \<open>null\<close> and \<open>undefined\<close> are \<open>None\<close>.
\<close>

text \<open>
  The code points that \<open>String.prototype.trim\<close> strips, each as its UTF-8 bytes: the
  white space TAB, VT, FF, SP, U+00A0, U+FEFF and the other space separators (U+1680,
  U+2000 to U+200A, U+202F, U+205F, U+3000), and the line terminators LF, CR, U+2028,
  U+2029.
\<close>

definition whiteSpace :: "string list" where
  "whiteSpace =
     [[CHR 0x09], [CHR 0x0A], [CHR 0x0B], [CHR 0x0C], [CHR 0x0D], [CHR 0x20],
      [CHR 0xC2, CHR 0xA0],
      [CHR 0xE1, CHR 0x9A, CHR 0x80],
      [CHR 0xE2, CHR 0x80, CHR 0x80], [CHR 0xE2, CHR 0x80, CHR 0x81],
      [CHR 0xE2, CHR 0x80, CHR 0x82], [CHR 0xE2, CHR 0x80, CHR 0x83],
      [CHR 0xE2, CHR 0x80, CHR 0x84], [CHR 0xE2, CHR 0x80, CHR 0x85],
      [CHR 0xE2, CHR 0x80, CHR 0x86], [CHR 0xE2, CHR 0x80, CHR 0x87],
      [CHR 0xE2, CHR 0x80, CHR 0x88], [CHR 0xE2, CHR 0x80, CHR 0x89],
      [CHR 0xE2, CHR 0x80, CHR 0x8A],
      [CHR 0xE2, CHR 0x80, CHR 0xA8], [CHR 0xE2, CHR 0x80, CHR 0xA9],
      [CHR 0xE2, CHR 0x80, CHR 0xAF],
      [CHR 0xE2, CHR 0x81, CHR 0x9F],
      [CHR 0xE3, CHR 0x80, CHR 0x80],
      [CHR 0xEF, CHR 0xBB, CHR 0xBF]]"

text \<open>
  Removing, from the front, every leading occurrence of one of the byte sequences
  \<open>seqs\<close>. In well-formed UTF-8 a lead byte never occurs inside a code point, so a
  sequence found at the front, or (reversed) at the back, is that code point.
\<close>

fun stripLeading :: "string list \<Rightarrow> string \<Rightarrow> string" where
  "stripLeading seqs [] = []"
| "stripLeading seqs (c # cs) =
     (case find (\<lambda>w. prefix w (c # cs)) seqs of
        None \<Rightarrow> c # cs
      | Some w \<Rightarrow> stripLeading seqs (drop (length w - 1) cs))"

text \<open>\<open>String.prototype.trim\<close>: white space and line terminators off both ends.\<close>

definition trim :: "string \<Rightarrow> string" where
  "trim s = rev (stripLeading (map rev whiteSpace) (rev (stripLeading whiteSpace s)))"

definition truthy :: "string option \<Rightarrow> bool" where
  "truthy v = (case v of None \<Rightarrow> False | Some s \<Rightarrow> s \<noteq> [])"

text \<open>\<open>parts.join(sep)\<close> on an array of strings.\<close>

fun joinWith :: "string \<Rightarrow> string list \<Rightarrow> string" where
  "joinWith sep [] = []"
| "joinWith sep [x] = x"
| "joinWith sep (x # y # ys) = x @ sep @ joinWith sep (y # ys)"

text \<open>\<open>text.includes(sub)\<close>.\<close>

fun includesStr :: "string \<Rightarrow> string \<Rightarrow> bool" where
  "includesStr [] sub = (sub = [])"
| "includesStr (c # cs) sub = (prefix sub (c # cs) \<or> includesStr cs sub)"

text \<open>
  An awaited call of the page driver or of the HTTP client either rejects with an error
  (only its message is kept) or resolves to a value.
\<close>

datatype 'a attempt = Threw string | Got 'a

text \<open>
  A thrown \<open>Error\<close>: its message and the \<open>code\<close> property, which only
  \<open>searchByIdentification\<close> ever sets.
\<close>

record js_error =
  message :: string
  code :: "string option"

definition plainError :: "string \<Rightarrow> js_error" where
  "plainError m = \<lparr>message = m, code = None\<rparr>"

section \<open>Registry search: choosing the result card\<close>

text \<open>
  A result card (\<open>.card-result\<close>) as the in-page callbacks read it: the
  \<open>textContent\<close> of each \<open>span\<close> below it, in document order, and the key/value
  entries that \<open>extractBasicInfo\<close> derives from it.
\<close>

record result_card =
  spans :: "string list"
  entries :: "(string \<times> string) list"

text \<open>The inner loop of \<open>getCardStatusActive\<close>: some span of the card trims to \<open>Activa\<close>.\<close>

definition hasActiveSpan :: "result_card \<Rightarrow> bool" where
  "hasActiveSpan c = list_ex (\<lambda>s. trim s = ''Activa'') (spans c)"

text \<open>The outer loop, from index \<open>i\<close> on: the index of the first card with such a span.\<close>

fun firstActiveFrom :: "nat \<Rightarrow> result_card list \<Rightarrow> nat option" where
  "firstActiveFrom i [] = None"
| "firstActiveFrom i (c # cs) = (if hasActiveSpan c then Some i else firstActiveFrom (Suc i) cs)"

text \<open>The callback evaluated in the page: a card index, or \<open>-1\<close>.\<close>

definition cardIndexInPage :: "result_card list \<Rightarrow> int" where
  "cardIndexInPage cards =
     (case firstActiveFrom 0 cards of
        Some i \<Rightarrow> int i
      | None \<Rightarrow> (if length cards > 0 then int (length cards) - 1 else - 1))"

definition getCardStatusActive :: "result_card list \<Rightarrow> js_error + int" where
  "getCardStatusActive cards =
     (let cardIndex = cardIndexInPage cards
      in if cardIndex < 0 then Inl (plainError ''Card no encontrada'') else Inr cardIndex)"

text \<open>\<open>cards[cardIndex]\<close>: \<open>undefined\<close> out of range.\<close>

definition cardAt :: "result_card list \<Rightarrow> int \<Rightarrow> result_card option" where
  "cardAt cards i = (if 0 \<le> i \<and> i < int (length cards) then Some (cards ! nat i) else None)"

section \<open>Registry search: the flow\<close>

datatype record_type = RM | ESAL | ESOL

definition recordTypes :: "record_type list" where
  "recordTypes = [RM, ESAL, ESOL]"

fun recordTypeName :: "record_type \<Rightarrow> string" where
  "recordTypeName RM = ''RM''"
| "recordTypeName ESAL = ''ESAL''"
| "recordTypeName ESOL = ''ESOL''"

fun mapRecords :: "record_type \<Rightarrow> string" where
  "mapRecords RM = ''Registro Mercantil''"
| "mapRecords ESAL = ''Entidades sin animo de lucro''"
| "mapRecords ESOL = ''Registro de entidades de economia solidaria''"

text \<open>
  The values of a \<open>RuesData\<close> object: a string, the \<open>informacion_general\<close> record, or
  the \<open>actividad_economica\<close> array of \<open>ciiu\<close>/\<open>description\<close> pairs. An object is a
  map from property names; a spread \<open>{...a, ...b}\<close> is \<open>a ++ b\<close>.
\<close>

datatype js_value =
    JStr string
  | JRecord "(string \<times> string) list"
  | JActivities "(string \<times> string) list"

type_synonym js_object = "string \<rightharpoonup> js_value"

text \<open>\<open>result[key] = value\<close> for each entry in turn: a later entry replaces an earlier one.\<close>

definition objectOf :: "(string \<times> string) list \<Rightarrow> js_object" where
  "objectOf kvs = fold (\<lambda>(k, v) m. m(k \<mapsto> JStr v)) kvs Map.empty"

text \<open>What \<open>extractDetailedInfo\<close> returns.\<close>

record detail_info =
  informacion_general :: "(string \<times> string) list"
  actividad_economica :: "(string \<times> string) list"
  representante_legal :: string

text \<open>
  What the page shows for one record type once the identification has been typed: the
  outcome of every call of the page driver that the flow makes for that type.
\<close>

record category_page =
  selectRecordTypeOutcome :: "unit attempt"
  idInputOutcome :: "unit attempt"
  visibleButton :: bool
  spinnerCleared :: bool
  noResultsMessage :: "bool attempt"
  resultCards :: "result_card list attempt"
  linkClickOutcome :: "unit attempt"
  generalTabShown :: bool
  detailOutcome :: "detail_info attempt"

text \<open>UTF-8 bytes of the accented letters in the messages.\<close>

definition aacute :: string where "aacute = [CHR 0xC3, CHR 0xA1]"
definition oacute :: string where "oacute = [CHR 0xC3, CHR 0xB3]"
definition uacute :: string where "uacute = [CHR 0xC3, CHR 0xBA]"

definition selectRecordType :: "category_page \<Rightarrow> js_error + unit" where
  "selectRecordType pg =
     (case selectRecordTypeOutcome pg of Threw m \<Rightarrow> Inl (plainError m) | Got u \<Rightarrow> Inr u)"

text \<open>
  \<open>enterIdentificationAndSubmit\<close>: \<open>true\<close> when the spinner of the displayed submit
  button went away within the 60000 ms wait, \<open>false\<close> when it did not or when no submit
  button is displayed. The wait for the spinner to appear is tolerated either way.
\<close>

definition enterIdentificationAndSubmit :: "category_page \<Rightarrow> js_error + bool" where
  "enterIdentificationAndSubmit pg =
     (case idInputOutcome pg of
        Threw m \<Rightarrow> Inl (plainError m)
      | Got u \<Rightarrow>
          if visibleButton pg
          then (if spinnerCleared pg then Inr True else Inr False)
          else Inr False)"

text \<open>\<open>verifyResults\<close>: any rejection inside is caught and counts as no result.\<close>

definition verifyResults :: "category_page \<Rightarrow> bool" where
  "verifyResults pg =
     (case noResultsMessage pg of
        Threw m \<Rightarrow> False
      | Got noResults \<Rightarrow>
          if noResults then False
          else (case resultCards pg of Threw m \<Rightarrow> False | Got cards \<Rightarrow> length cards > 0))"

definition extractBasicInfo :: "result_card list \<Rightarrow> js_error + (string \<times> string) list" where
  "extractBasicInfo cards =
     (case getCardStatusActive cards of
        Inl e \<Rightarrow> Inl e
      | Inr cardIndex \<Rightarrow>
          if length cards = 0
          then Inl (plainError (''No se encontr'' @ oacute @ '' contenedor de resultados''))
          else (case cardAt cards cardIndex of
                  None \<Rightarrow> Inl (plainError ''Cannot read properties of undefined'')
                | Some c \<Rightarrow> Inr (entries c)))"

definition waitForDetailTabs :: "category_page \<Rightarrow> js_error + unit" where
  "waitForDetailTabs pg =
     (if generalTabShown pg then Inr ()
      else Inl (plainError (''No se pudo cargar la p'' @ aacute @ ''gina de detalles'')))"

text \<open>\<open>basicInfo.nombre || ''\<close>\<close>

definition nombreOf :: "(string \<times> string) list \<Rightarrow> string" where
  "nombreOf basicInfo =
     (case objectOf basicInfo ''nombre'' of Some (JStr n) \<Rightarrow> n | _ \<Rightarrow> [])"

definition extractInformation :: "category_page \<Rightarrow> js_error + js_object" where
  "extractInformation pg =
     (case resultCards pg of
        Threw m \<Rightarrow> Inl (plainError m)
      | Got cards \<Rightarrow>
          if cards = [] then Inl (plainError ''page.waitForSelector: Timeout exceeded'')
          else
          (case extractBasicInfo cards of
             Inl e \<Rightarrow> Inl e
           | Inr basicInfo \<Rightarrow>
          (case getCardStatusActive cards of
             Inl e \<Rightarrow> Inl e
           | Inr cardIndex \<Rightarrow>
          (case linkClickOutcome pg of
             Threw m \<Rightarrow> Inl (plainError m)
           | Got u \<Rightarrow>
          (case waitForDetailTabs pg of
             Inl e \<Rightarrow> Inl e
           | Inr u \<Rightarrow>
          (case detailOutcome pg of
             Threw m \<Rightarrow> Inl (plainError m)
           | Got details \<Rightarrow>
               Inr ([''nombre'' \<mapsto> JStr (nombreOf basicInfo), ''tipo_empresa'' \<mapsto> JStr []]
                    ++ objectOf basicInfo
                    ++ [''informacion_general'' \<mapsto> JRecord (informacion_general details),
                        ''actividad_economica'' \<mapsto> JActivities (actividad_economica details),
                        ''representante_legal'' \<mapsto> JStr (representante_legal details)])))))))"

definition apiError :: "string \<Rightarrow> js_error" where
  "apiError identification =
     \<lparr>message = ''No se pudo consultar el documento '' @ identification
         @ ''. La API de RUES no est'' @ aacute @ '' respondiendo. Por favor intente m''
         @ aacute @ ''s tarde.'',
      code = Some ''API_ERROR''\<rparr>"

definition notFoundError :: "string \<Rightarrow> js_error" where
  "notFoundError identification =
     \<lparr>message = ''Documento '' @ identification @ '' no encontrado en ning'' @ uacute
         @ ''n tipo de registro (RM, ESAL, ESOL).'',
      code = Some ''NOT_FOUND''\<rparr>"

text \<open>
  The loop of \<open>searchByIdentification\<close> over the record types still to try, with the
  flag \<open>allApisFailed\<close> as it stands; \<open>pages t\<close> is what the site shows for type \<open>t\<close>.
  \<open>closeSweetAlertModal\<close> catches every rejection and \<open>sleep\<close> only waits, so neither
  has a branch here.
\<close>

fun searchLoop ::
  "(record_type \<Rightarrow> category_page) \<Rightarrow> string \<Rightarrow> bool \<Rightarrow> record_type list \<Rightarrow> js_error + js_object"
where
  "searchLoop pages identification allApisFailed [] =
     (if allApisFailed then Inl (apiError identification)
      else Inl (notFoundError identification))"
| "searchLoop pages identification allApisFailed (recordType # rest) =
     (case selectRecordType (pages recordType) of
        Inl e \<Rightarrow> Inl e
      | Inr u \<Rightarrow>
     (case enterIdentificationAndSubmit (pages recordType) of
        Inl e \<Rightarrow> Inl e
      | Inr apiResponded \<Rightarrow>
          if apiResponded then
            (if verifyResults (pages recordType)
             then (case extractInformation (pages recordType) of
                     Inl e \<Rightarrow> Inl e
                   | Inr result \<Rightarrow> Inr (result(''tipo_empresa'' \<mapsto> JStr (mapRecords recordType))))
             else searchLoop pages identification False rest)
          else searchLoop pages identification allApisFailed rest))"

definition searchByIdentification ::
  "(record_type \<Rightarrow> category_page) \<Rightarrow> string \<Rightarrow> js_error + js_object" where
  "searchByIdentification pages identification = searchLoop pages identification True recordTypes"

section \<open>Registry search: the invocation\<close>

text \<open>
  A property of the incoming event (\<open>event: any\<close>): absent, \<open>null\<close>, a boolean, a
  string or an integer. \<open>toStringJs\<close> is \<open>String(v)\<close>.
\<close>

datatype js_input = JUndefined | JNull | JBoolean bool | JString string | JNumber int

function showNat :: "nat \<Rightarrow> string" where
  "showNat n = (if n < 10 then [char_of (48 + n)] else showNat (n div 10) @ [char_of (48 + n mod 10)])"
  by pat_completeness auto
termination
  by (relation "measure (\<lambda>n. n)") auto

fun toStringJs :: "js_input \<Rightarrow> string" where
  "toStringJs JUndefined = ''undefined''"
| "toStringJs JNull = ''null''"
| "toStringJs (JBoolean b) = (if b then ''true'' else ''false'')"
| "toStringJs (JString s) = s"
| "toStringJs (JNumber i) = (if i < 0 then ''-'' @ showNat (nat (- i)) else showNat (nat i))"

record rues_event =
  ev_identificationNumber :: js_input
  ev_headless :: js_input

record RuesPayload =
  identificationNumber :: string
  headless :: "bool option"

text \<open>The external resources a flow acquires and releases, in the order of the calls.\<close>

datatype resource_action =
    LaunchBrowser | NewContext | NewPage | TakeScreenshot | ClosePage | CloseContext | CloseBrowser

text \<open>\<open>setupPage\<close>: \<open>newPage\<close> may reject, and so may \<open>goto\<close> once the page exists.\<close>

datatype page_setup = NewPageFails string | GotoFails string | PageReady

text \<open>
  The world one registry-search invocation runs in: the outcome of launching the browser,
  of opening a context and a page, and what the site shows for an identification and a
  record type. Rejections of the page driver carry no \<open>code\<close> property.
\<close>

record rues_env =
  launchOutcome :: "unit attempt"
  newContextOutcome :: "unit attempt"
  setupPageOutcome :: page_setup
  site :: "string \<Rightarrow> record_type \<Rightarrow> category_page"

text \<open>
  \<open>handle\<close> of the registry search. The error caught is thrown again; the \<open>finally\<close>
  block closes whatever of page, context and browser was assigned. The result comes with
  the trace of resource actions.
\<close>

definition ruesHandle :: "rues_env \<Rightarrow> RuesPayload \<Rightarrow> (js_error + js_object) \<times> resource_action list" where
  "ruesHandle env payload =
     (if identificationNumber payload = []
      then (Inl (plainError (''La identificaci'' @ oacute @ ''n es requerida.'')), [])
      else
      (case launchOutcome env of
         Threw m \<Rightarrow> (Inl (plainError m), [LaunchBrowser])
       | Got u \<Rightarrow>
      (case newContextOutcome env of
         Threw m \<Rightarrow> (Inl (plainError m), [LaunchBrowser, NewContext, CloseBrowser])
       | Got u \<Rightarrow>
      (case setupPageOutcome env of
         NewPageFails m \<Rightarrow>
           (Inl (plainError m), [LaunchBrowser, NewContext, NewPage, CloseContext, CloseBrowser])
       | GotoFails m \<Rightarrow>
           (Inl (plainError m), [LaunchBrowser, NewContext, NewPage, CloseContext, CloseBrowser])
       | PageReady \<Rightarrow>
           (searchByIdentification (site env (identificationNumber payload)) (identificationNumber payload),
            [LaunchBrowser, NewContext, NewPage, ClosePage, CloseContext, CloseBrowser])))))"

record rues_body =
  success :: bool
  data :: "js_object option"
  error :: "string option"
  errorCode :: "string option"

record rues_response =
  statusCode :: nat
  body :: rues_body

text \<open>\<open>event.headless === true || event.headless === 'true' || event.headless === undefined\<close>\<close>

definition normalizeHeadless :: "js_input \<Rightarrow> bool" where
  "normalizeHeadless h = (h = JBoolean True \<or> h = JString ''true'' \<or> h = JUndefined)"

definition ruesPayloadOf :: "rues_event \<Rightarrow> RuesPayload" where
  "ruesPayloadOf event =
     \<lparr>identificationNumber = toStringJs (ev_identificationNumber event),
      headless = Some (normalizeHeadless (ev_headless event))\<rparr>"

text \<open>The status the handler derives from the \<open>code\<close> of the error it caught.\<close>

definition statusOfCode :: "string option \<Rightarrow> nat" where
  "statusOfCode c =
     (if c = Some ''NOT_FOUND'' then 404
      else if c = Some ''API_ERROR'' then 503
      else 500)"

text \<open>\<open>errorCode || 'UNKNOWN_ERROR'\<close>\<close>

definition errorCodeOrUnknown :: "string option \<Rightarrow> string" where
  "errorCodeOrUnknown c = (case c of None \<Rightarrow> ''UNKNOWN_ERROR'' | Some x \<Rightarrow> if x = [] then ''UNKNOWN_ERROR'' else x)"

definition ruesHandler :: "rues_env \<Rightarrow> rues_event \<Rightarrow> rues_response \<times> resource_action list" where
  "ruesHandler env event =
     (case ruesHandle env (ruesPayloadOf event) of
        (Inr result, trace) \<Rightarrow>
          (\<lparr>statusCode = 200,
            body = \<lparr>success = True, data = Some result, error = None, errorCode = None\<rparr>\<rparr>, trace)
      | (Inl e, trace) \<Rightarrow>
          (\<lparr>statusCode = statusOfCode (code e),
            body = \<lparr>success = False, data = None, error = Some (message e),
                    errorCode = Some (errorCodeOrUnknown (code e))\<rparr>\<rparr>, trace))"

text \<open>
  Two readings of a record type's page used to state the properties: the in-flight
  indicator was awaited and never cleared; the API responded (what the flow calls
  \<open>apiResponded\<close>).
\<close>

definition indicatorNeverClears :: "category_page \<Rightarrow> bool" where
  "indicatorNeverClears pg =
     (selectRecordTypeOutcome pg = Got () \<and> idInputOutcome pg = Got () \<and>
      visibleButton pg \<and> \<not> spinnerCleared pg)"

definition apiResponded :: "category_page \<Rightarrow> bool" where
  "apiResponded pg = (enterIdentificationAndSubmit pg = Inr True)"

definition recordFound :: "category_page \<Rightarrow> bool" where
  "recordFound pg = (apiResponded pg \<and> verifyResults pg)"

section \<open>Challenge solver: the secondary provider\<close>

text \<open>
  The JSON answer of the provider: \<open>status\<close> and \<open>request\<close> (the job identifier in the
  answer to the submission, the token in the answer to a status request).
\<close>

record captcha_reply =
  status :: int
  request :: string

text \<open>The calls \<open>solveCaptcha2Captcha\<close> makes, in order: HTTP requests and timer waits (ms).\<close>

datatype solver_action = SubmitRequest | PollRequest | Wait nat

text \<open>
  The \<open>while (attempts < 15)\<close> loop. \<open>results k\<close> is the outcome of the status request
  made when \<open>attempts = k\<close>: every request that does not end the loop increments
  \<open>attempts\<close>. A completed job and a rejected request both \<open>break\<close>.
\<close>

function pollLoop :: "(nat \<Rightarrow> captcha_reply attempt) \<Rightarrow> nat \<Rightarrow> string option \<times> solver_action list" where
  "pollLoop results attempts =
     (if attempts < 15 then
        (case results attempts of
           Threw m \<Rightarrow> (None, [PollRequest])
         | Got resultData \<Rightarrow>
             if status resultData = 1 then (Some (request resultData), [PollRequest])
             else (case pollLoop results (attempts + 1) of
                     (solution, actions) \<Rightarrow> (solution, PollRequest # Wait 7000 # actions)))
      else (None, []))"
  by pat_completeness auto
termination
  by (relation "measure (\<lambda>(results, attempts). 15 - attempts)") auto

declare pollLoop.simps [simp del]

definition solveCaptcha2Captcha ::
  "captcha_reply attempt \<Rightarrow> (nat \<Rightarrow> captcha_reply attempt) \<Rightarrow> string option \<times> solver_action list" where
  "solveCaptcha2Captcha submitted results =
     (case submitted of
        Threw m \<Rightarrow> (None, [SubmitRequest])
      | Got requestResult \<Rightarrow>
          if status requestResult \<noteq> 1 then (None, [SubmitRequest])
          else (case pollLoop results 0 of
                  (solution, actions) \<Rightarrow> (solution, SubmitRequest # actions)))"

text \<open>
  The polling as the specification words it, for comparison: a rejected status request
  counts as "not yet ready", so the loop goes on to the next attempt after the wait.
\<close>

function pollLoopSpec :: "(nat \<Rightarrow> captcha_reply attempt) \<Rightarrow> nat \<Rightarrow> string option \<times> solver_action list" where
  "pollLoopSpec results attempts =
     (if attempts < 15 then
        (case results attempts of
           Threw m \<Rightarrow>
             (case pollLoopSpec results (attempts + 1) of
                (solution, actions) \<Rightarrow> (solution, PollRequest # Wait 7000 # actions))
         | Got resultData \<Rightarrow>
             if status resultData = 1 then (Some (request resultData), [PollRequest])
             else (case pollLoopSpec results (attempts + 1) of
                     (solution, actions) \<Rightarrow> (solution, PollRequest # Wait 7000 # actions)))
      else (None, []))"
  by pat_completeness auto
termination
  by (relation "measure (\<lambda>(results, attempts). 15 - attempts)") auto

declare pollLoopSpec.simps [simp del]

definition solveCaptcha2CaptchaSpec ::
  "captcha_reply attempt \<Rightarrow> (nat \<Rightarrow> captcha_reply attempt) \<Rightarrow> string option \<times> solver_action list" where
  "solveCaptcha2CaptchaSpec submitted results =
     (case submitted of
        Threw m \<Rightarrow> (None, [SubmitRequest])
      | Got requestResult \<Rightarrow>
          if status requestResult \<noteq> 1 then (None, [SubmitRequest])
          else (case pollLoopSpec results 0 of
                  (solution, actions) \<Rightarrow> (solution, SubmitRequest # actions)))"

text \<open>A status answer that is neither a rejection nor a completed job.\<close>

definition notReady :: "captcha_reply attempt \<Rightarrow> bool" where
  "notReady r = (case r of Threw m \<Rightarrow> False | Got resultData \<Rightarrow> status resultData \<noteq> 1)"

text \<open>\<open>k\<close> rounds of a status request followed by the 7000 ms wait.\<close>

definition rounds :: "nat \<Rightarrow> solver_action list" where
  "rounds k = concat (replicate k [PollRequest, Wait 7000])"

definition pollCount :: "solver_action list \<Rightarrow> nat" where
  "pollCount actions = length (filter (\<lambda>a. a = PollRequest) actions)"

text \<open>A job accepted by the provider, and status requests of which the first is rejected.\<close>

definition acceptedJob :: "captcha_reply attempt" where
  "acceptedJob = Got \<lparr>status = 1, request = ''74327409378''\<rparr>"

definition firstPollRejected :: "nat \<Rightarrow> captcha_reply attempt" where
  "firstPollRejected k =
     (if k = 0 then Threw ''socket hang up'' else Got \<lparr>status = 1, request = ''0.TOKEN''\<rparr>)"

definition readyAtThird :: "nat \<Rightarrow> captcha_reply attempt" where
  "readyAtThird k =
     (if k < 2 then Got \<lparr>status = 0, request = ''CAPCHA_NOT_READY''\<rparr>
      else Got \<lparr>status = 1, request = ''0.TOKEN''\<rparr>)"

section \<open>Token by e-mail: reading the page\<close>

text \<open>The in-page state of the modal guard, as \<open>getModalState\<close> reads it.\<close>

record blocked_redirect =
  fn :: string
  ts :: nat
  args :: "string list"

record ModalGuardState =
  lastError :: "string option"
  blockedRedirects :: "blocked_redirect list"

text \<open>
  The error modal (\<open>#errorModal\<close>) as the visibility test reads it: the computed
  \<open>display\<close>, whether the class list contains \<open>in\<close>, and the attribute
  \<open>aria-hidden\<close>. The same test is written in \<open>isModalVisible\<close> of the init script
  and in \<open>readModalError\<close>.
\<close>

record modal_element =
  display :: string
  hasInClass :: bool
  ariaHidden :: "string option"

definition isVisible :: "modal_element \<Rightarrow> bool" where
  "isVisible modal = ((display modal \<noteq> ''none'' \<or> hasInClass modal) \<and> ariaHidden modal \<noteq> Some ''true'')"

definition defaultModalText :: string where
  "defaultModalText = ''Se present'' @ oacute @ '' un error en el portal de la DIAN.''"

text \<open>\<open>[title, message].filter(Boolean).join(' - ') || default\<close>\<close>

definition modalText :: "string \<Rightarrow> string \<Rightarrow> string" where
  "modalText title msg =
     (let text = joinWith '' - '' (filter (\<lambda>s. s \<noteq> []) [title, msg])
      in if text \<noteq> [] then text else defaultModalText)"

text \<open>
  What one call of \<open>readModalError\<close> meets: \<open>page.$\<close> for the modal (rejecting, no
  element, or a handle whose \<open>evaluate\<close> rejects or reads the element), and the
  \<open>textContent\<close> of title and message (\<open>$eval\<close> rejects when the element is missing).
\<close>

record modal_reading =
  modalHandle :: "modal_element attempt option attempt"
  titleContent :: "string attempt"
  messageContent :: "string attempt"

definition readModalError :: "modal_reading \<Rightarrow> string option" where
  "readModalError r =
     (case modalHandle r of
        Threw m \<Rightarrow> None
      | Got None \<Rightarrow> None
      | Got (Some handle) \<Rightarrow>
          if \<not> (case handle of Threw m \<Rightarrow> False | Got modal \<Rightarrow> isVisible modal) then None
          else Some (modalText
                 (case titleContent r of Threw m \<Rightarrow> [] | Got t \<Rightarrow> trim t)
                 (case messageContent r of Threw m \<Rightarrow> [] | Got t \<Rightarrow> trim t)))"

text \<open>
  Everything one iteration of the polling loop reads from the page. An element lookup
  \<open>page.$(selector)\<close> rejects, finds nothing, or finds an element whose \<open>innerText\<close>
  rejects or gives the text. \<open>waitOutcome\<close> is the closing \<open>page.waitForTimeout(100)\<close>,
  which stands outside every \<open>try\<close>.
\<close>

record poll_tick =
  storedModalError :: "string option attempt"
  modalState :: "ModalGuardState option attempt"
  modalReading :: modal_reading
  successAlert :: "string attempt option attempt"
  errorAlert :: "string attempt option attempt"
  toastMessage :: "string attempt option attempt"
  bodyText :: "string attempt"
  isClosed :: bool
  selectionButton :: "bool attempt option attempt"
  fallbackReading :: modal_reading
  waitOutcome :: "unit attempt"

definition consumeStoredModalError :: "poll_tick \<Rightarrow> string option" where
  "consumeStoredModalError t = (case storedModalError t of Threw m \<Rightarrow> None | Got v \<Rightarrow> v)"

definition getModalState :: "poll_tick \<Rightarrow> ModalGuardState option" where
  "getModalState t = (case modalState t of Threw m \<Rightarrow> None | Got v \<Rightarrow> v)"

text \<open>\<open>modalState?.lastError\<close>\<close>

definition liveError :: "ModalGuardState option \<Rightarrow> string option" where
  "liveError ms = (case ms of None \<Rightarrow> None | Some st \<Rightarrow> lastError st)"

text \<open>
  The first \<open>try\<close> block of the loop: the trimmed text of the success alert when it is
  not empty. A rejected lookup is caught and logged; a rejected \<open>innerText\<close> counts as
  the empty text.
\<close>

definition successMessage :: "poll_tick \<Rightarrow> string option" where
  "successMessage t =
     (case successAlert t of
        Threw m \<Rightarrow> None
      | Got None \<Rightarrow> None
      | Got (Some inner) \<Rightarrow>
          (let msg = trim (case inner of Threw m \<Rightarrow> [] | Got s \<Rightarrow> s)
           in if msg \<noteq> [] then Some msg else None))"

text \<open>One round of the \<open>for\<close> loop of \<open>extractErrorMessage\<close>; rejections propagate.\<close>

definition selectorText :: "string attempt option attempt \<Rightarrow> string option attempt" where
  "selectorText lookup =
     (case lookup of
        Threw m \<Rightarrow> Threw m
      | Got None \<Rightarrow> Got None
      | Got (Some (Threw m)) \<Rightarrow> Threw m
      | Got (Some (Got s)) \<Rightarrow> Got (if trim s \<noteq> [] then Some (trim s) else None))"

definition credentialsMessage :: string where
  "credentialsMessage = ''Verifique las credenciales de inicio de sesi'' @ oacute @ ''n.''"

definition extractErrorMessage :: "poll_tick \<Rightarrow> string option attempt" where
  "extractErrorMessage t =
     (case selectorText (errorAlert t) of
        Threw m \<Rightarrow> Threw m
      | Got (Some text) \<Rightarrow> Got (Some text)
      | Got None \<Rightarrow>
     (case selectorText (toastMessage t) of
        Threw m \<Rightarrow> Threw m
      | Got (Some text) \<Rightarrow> Got (Some text)
      | Got None \<Rightarrow>
     (case bodyText t of
        Threw m \<Rightarrow> Threw m
      | Got innerText \<Rightarrow>
          if includesStr innerText ''credenciales'' \<or> includesStr innerText ''incorrect''
          then Got (Some credentialsMessage) else Got None)))"

section \<open>Token by e-mail: the outcome poller\<close>

record poll_state =
  lastModalError :: "string option"
  lastBlockedRedirects :: nat

datatype tick_outcome = Fail string | Return string | Continue poll_state

definition closedMarker :: string where
  "closedMarker = ''Target page, context or browser has been closed''"

definition reloadedMessage :: string where
  "reloadedMessage = ''La p'' @ aacute @ ''gina de la DIAN se recarg'' @ oacute
     @ '' antes de obtener respuesta. Verifique el estado del portal e intente nuevamente.''"

definition pageClosedMessage :: string where
  "pageClosedMessage = ''La p'' @ aacute @ ''gina de la DIAN se cerr'' @ oacute
     @ '' antes de obtener respuesta. Verifique los datos e intente nuevamente.''"

definition noTokenMessage :: string where
  "noTokenMessage = ''No fue posible generar el token. Verifique la informaci'' @ oacute
     @ ''n e intente nuevamente.''"

definition timeoutMessage :: string where
  "timeoutMessage = ''No se recibi'' @ oacute @ '' confirmaci'' @ oacute
     @ ''n del env'' @ [CHR 0xC3, CHR 0xAD] @ ''o del correo. Verifique las credenciales.''"

text \<open>\<open>lastModalError ?? fallback\<close>\<close>

definition orElse :: "string option \<Rightarrow> string \<Rightarrow> string" where
  "orElse v fallback = (case v of None \<Rightarrow> fallback | Some s \<Rightarrow> s)"

text \<open>
  The second \<open>try\<close> block: the message of whatever is thrown inside it, by
  \<open>extractErrorMessage\<close> or by \<open>throw new Error(extractedError)\<close>. Its own
  \<open>catch\<close> receives it.
\<close>

definition thrownInErrorCheck :: "poll_tick \<Rightarrow> string option" where
  "thrownInErrorCheck t =
     (case extractErrorMessage t of
        Threw m \<Rightarrow> Some m
      | Got extractedError \<Rightarrow> (if truthy extractedError then extractedError else None))"

text \<open>
  The last \<open>try\<close> block: the message of what is thrown inside it when the initial
  selection button is displayed again. Its own \<open>catch\<close> receives it and only logs.
\<close>

definition thrownInSelectionCheck :: "poll_state \<Rightarrow> poll_tick \<Rightarrow> string option" where
  "thrownInSelectionCheck st t =
     (case selectionButton t of
        Threw m \<Rightarrow> Some m
      | Got None \<Rightarrow> None
      | Got (Some shown) \<Rightarrow>
          if (case shown of Threw m \<Rightarrow> False | Got b \<Rightarrow> b) then
            (if truthy (lastModalError st) then lastModalError st
             else (case readModalError (fallbackReading t) of
                     Some fallbackModal \<Rightarrow>
                       (if fallbackModal \<noteq> [] then Some fallbackModal else Some noTokenMessage)
                   | None \<Rightarrow> Some noTokenMessage))
          else None)"

text \<open>One iteration of the \<open>while\<close> loop of \<open>waitForResultMessage\<close>.\<close>

definition pollTick :: "poll_state \<Rightarrow> poll_tick \<Rightarrow> tick_outcome" where
  "pollTick st t =
     (if truthy (consumeStoredModalError t) then Fail (the (consumeStoredModalError t))
      else if truthy (liveError (getModalState t)) then Fail (the (liveError (getModalState t)))
      else
        (let blocked = (case getModalState t of None \<Rightarrow> 0 | Some ms \<Rightarrow> length (blockedRedirects ms));
             st1 = (if blocked \<noteq> 0 \<and> blocked \<noteq> lastBlockedRedirects st
                    then st\<lparr>lastBlockedRedirects := blocked\<rparr> else st)
         in if truthy (readModalError (modalReading t)) then Fail (the (readModalError (modalReading t)))
            else
            (case successMessage t of
               Some msg \<Rightarrow> Return msg
             | None \<Rightarrow>
                 if (case thrownInErrorCheck t of
                       None \<Rightarrow> False | Some m \<Rightarrow> includesStr m closedMarker)
                 then Fail (orElse (lastModalError st1) reloadedMessage)
                 else
                   (let st2 = (if truthy (liveError (getModalState t)) \<and> \<not> truthy (lastModalError st1)
                               then st1\<lparr>lastModalError := liveError (getModalState t)\<rparr> else st1)
                    in if isClosed t then Fail (orElse (lastModalError st2) pageClosedMessage)
                       else
                         (let afterWait = (case waitOutcome t of
                                             Threw m \<Rightarrow> Fail m | Got u \<Rightarrow> Continue st2)
                          in case thrownInSelectionCheck st2 t of
                               Some caught \<Rightarrow> afterWait
                             | None \<Rightarrow> afterWait)))))"

text \<open>
  The loop over the iterations whose test \<open>Date.now() < deadline\<close> passed; when they
  are used up the deadline has elapsed. \<open>Inl\<close> is the message of the error thrown.
\<close>

fun waitLoop :: "poll_state \<Rightarrow> poll_tick list \<Rightarrow> string + string" where
  "waitLoop st [] = Inl (orElse (lastModalError st) timeoutMessage)"
| "waitLoop st (t # rest) =
     (case pollTick st t of
        Fail m \<Rightarrow> Inl m
      | Return msg \<Rightarrow> Inr msg
      | Continue st' \<Rightarrow> waitLoop st' rest)"

definition waitForResultMessage :: "poll_tick list \<Rightarrow> string + string" where
  "waitForResultMessage ticks = waitLoop \<lparr>lastModalError = None, lastBlockedRedirects = 0\<rparr> ticks"

text \<open>
  The signals of one iteration, for stating the properties: an error signal of the
  modal (persisted error, live error of the observer, visible error modal), in the
  order the loop reads them, and the text of the error alert or toast.
\<close>

definition modalSignal :: "poll_tick \<Rightarrow> string option" where
  "modalSignal t =
     (if truthy (consumeStoredModalError t) then consumeStoredModalError t
      else if truthy (liveError (getModalState t)) then liveError (getModalState t)
      else if truthy (readModalError (modalReading t)) then readModalError (modalReading t)
      else None)"

definition alertSignal :: "poll_tick \<Rightarrow> string option" where
  "alertSignal t =
     (case selectorText (errorAlert t) of
        Got (Some text) \<Rightarrow> Some text
      | _ \<Rightarrow> (case selectorText (toastMessage t) of Got (Some text) \<Rightarrow> Some text | _ \<Rightarrow> None))"

section \<open>Token by e-mail: the flow and its handler\<close>

record DianTokenEmailPayload =
  identificationType :: string
  userCode :: string
  companyCode :: string
  origin :: "string option"
  headlessD :: "bool option"

text \<open>\<open>DianTokenEmailResult\<close>; the field names carry an \<open>R\<close> to keep them apart.\<close>

record DianTokenEmailResult =
  successR :: bool
  messageR :: "string option"
  errorR :: "string option"
  originR :: "string option"
  screenshotR :: "string option"

text \<open>The names \<open>validatePayload\<close> collects, in the order of its three tests.\<close>

definition missingFields :: "DianTokenEmailPayload \<Rightarrow> string list" where
  "missingFields payload =
     (if identificationType payload = [] then [''identificationType''] else [])
     @ (if userCode payload = [] then [''userCode''] else [])
     @ (if companyCode payload = [] then [''companyCode''] else [])"

text \<open>\<open>validatePayload\<close>: the message of the error it throws, if it throws.\<close>

definition validatePayload :: "DianTokenEmailPayload \<Rightarrow> string option" where
  "validatePayload payload =
     (if length (missingFields payload) \<noteq> 0
      then Some (''Campos obligatorios faltantes: '' @ joinWith '', '' (missingFields payload))
      else None)"

text \<open>
  The world one token invocation runs in: whether it is the Lambda runtime, the outcome
  of launching the browser and of opening context and page, of installing the init
  script, of the navigation, of \<open>interactWithLoginForm\<close> for a payload, the iterations
  the poller gets to run after that payload was submitted, and of the screenshot.
\<close>

record dian_env =
  isLambda :: bool
  initializeBrowserOutcome :: "unit attempt"
  contextOutcome :: "unit attempt"
  pageOutcome :: "unit attempt"
  setupModalGuardsOutcome :: "unit attempt"
  gotoOutcome :: "unit attempt"
  interactOutcome :: "DianTokenEmailPayload \<Rightarrow> unit attempt"
  pollTicks :: "DianTokenEmailPayload \<Rightarrow> poll_tick list"
  screenshotOutcome :: "string attempt"

text \<open>The part of \<open>handle\<close> that runs on the page, from \<open>setupModalGuards\<close> on.\<close>

definition onPage :: "dian_env \<Rightarrow> DianTokenEmailPayload \<Rightarrow> string + string" where
  "onPage env payload =
     (case setupModalGuardsOutcome env of
        Threw m \<Rightarrow> Inl m
      | Got u \<Rightarrow>
     (case gotoOutcome env of
        Threw m \<Rightarrow> Inl m
      | Got u \<Rightarrow>
     (case interactOutcome env payload of
        Threw m \<Rightarrow> Inl m
      | Got u \<Rightarrow> waitForResultMessage (pollTicks env payload))))"

definition failure :: "DianTokenEmailPayload \<Rightarrow> string \<Rightarrow> string option \<Rightarrow> DianTokenEmailResult" where
  "failure payload errorMessage screenshot =
     \<lparr>successR = False, messageR = None, errorR = Some errorMessage, originR = origin payload,
      screenshotR = screenshot\<rparr>"

text \<open>
  \<open>handle\<close> of the token flow, with the trace of resource actions. Every error is
  caught and turned into a failure result; a screenshot is taken only when a page exists
  and the runtime is not Lambda.
\<close>

definition dianHandle :: "dian_env \<Rightarrow> DianTokenEmailPayload \<Rightarrow> DianTokenEmailResult \<times> resource_action list" where
  "dianHandle env payload =
     (case validatePayload payload of
        Some m \<Rightarrow> (failure payload m None, [])
      | None \<Rightarrow>
     (case initializeBrowserOutcome env of
        Threw m \<Rightarrow> (failure payload m None, [LaunchBrowser])
      | Got u \<Rightarrow>
     (case contextOutcome env of
        Threw m \<Rightarrow> (failure payload m None, [LaunchBrowser, NewContext, CloseBrowser])
      | Got u \<Rightarrow>
     (case pageOutcome env of
        Threw m \<Rightarrow>
          (failure payload m None, [LaunchBrowser, NewContext, NewPage, CloseContext, CloseBrowser])
      | Got u \<Rightarrow>
     (case onPage env payload of
        Inr msg \<Rightarrow>
          (\<lparr>successR = True, messageR = Some msg, errorR = None, originR = origin payload,
            screenshotR = None\<rparr>,
           [LaunchBrowser, NewContext, NewPage, ClosePage, CloseContext, CloseBrowser])
      | Inl m \<Rightarrow>
          if isLambda env
          then (failure payload m None,
                [LaunchBrowser, NewContext, NewPage, ClosePage, CloseContext, CloseBrowser])
          else (failure payload m
                  (case screenshotOutcome env of
                     Threw e \<Rightarrow> None
                   | Got shot \<Rightarrow> if shot \<noteq> [] then Some shot else None),
                [LaunchBrowser, NewContext, NewPage, TakeScreenshot, ClosePage, CloseContext,
                 CloseBrowser]))))))"

text \<open>The event of the token handler, with the documented names and their aliases.\<close>

record dian_event =
  ev_identificationType :: js_input
  ev_CompanyIdentificationType :: js_input
  ev_userCode :: js_input
  ev_UserCode :: js_input
  ev_companyCode :: js_input
  ev_CompanyCode :: js_input
  ev_origin :: js_input
  ev_headlessD :: js_input

text \<open>\<open>a ?? b\<close>: \<open>b\<close> when \<open>a\<close> is \<open>undefined\<close> or \<open>null\<close>.\<close>

definition nullish :: "js_input \<Rightarrow> bool" where
  "nullish v = (v = JUndefined \<or> v = JNull)"

definition coalesce :: "js_input \<Rightarrow> js_input \<Rightarrow> js_input" where
  "coalesce a b = (if nullish a then b else a)"

text \<open>JavaScript truthiness of an event property.\<close>

fun truthyJs :: "js_input \<Rightarrow> bool" where
  "truthyJs JUndefined = False"
| "truthyJs JNull = False"
| "truthyJs (JBoolean b) = b"
| "truthyJs (JString s) = (s \<noteq> [])"
| "truthyJs (JNumber i) = (i \<noteq> 0)"

definition toLowerCase :: "string \<Rightarrow> string" where
  "toLowerCase s =
     map (\<lambda>c. if 65 \<le> (of_char c :: nat) \<and> (of_char c :: nat) \<le> 90
             then char_of ((of_char c :: nat) + 32) else c) s"

fun normalizeBoolean :: "js_input \<Rightarrow> bool \<Rightarrow> bool" where
  "normalizeBoolean JUndefined defaultValue = defaultValue"
| "normalizeBoolean JNull defaultValue = defaultValue"
| "normalizeBoolean (JBoolean b) defaultValue = b"
| "normalizeBoolean (JString s) defaultValue =
     (if s = [] then defaultValue
      else if toLowerCase (trim s) \<in> set [''true'', ''1'', ''yes'', ''si''] then True
      else if toLowerCase (trim s) \<in> set [''false'', ''0'', ''no''] then False
      else defaultValue)"
| "normalizeBoolean (JNumber i) defaultValue = defaultValue"

definition dianPayloadOf :: "dian_event \<Rightarrow> DianTokenEmailPayload" where
  "dianPayloadOf event =
     \<lparr>identificationType =
        toStringJs (coalesce (coalesce (ev_identificationType event) (ev_CompanyIdentificationType event))
                      (JString [])),
      userCode = toStringJs (coalesce (coalesce (ev_userCode event) (ev_UserCode event)) (JString [])),
      companyCode =
        toStringJs (coalesce (coalesce (ev_companyCode event) (ev_CompanyCode event)) (JString [])),
      origin = (if truthyJs (ev_origin event) then Some (toStringJs (ev_origin event)) else None),
      headlessD = Some (normalizeBoolean (ev_headlessD event) True)\<rparr>"

record dian_response =
  statusCodeD :: nat
  bodyD :: DianTokenEmailResult

definition dianHandler :: "dian_env \<Rightarrow> dian_event \<Rightarrow> dian_response \<times> resource_action list" where
  "dianHandler env event =
     (case dianHandle env (dianPayloadOf event) of
        (result, trace) \<Rightarrow>
          (\<lparr>statusCodeD = (if successR result then 200 else 400), bodyD = result\<rparr>, trace))"

text \<open>An event with the three aliases moved to the documented names.\<close>

definition aliasesAsDocumented :: "dian_event \<Rightarrow> dian_event" where
  "aliasesAsDocumented event =
     event\<lparr>ev_identificationType := ev_CompanyIdentificationType event,
           ev_CompanyIdentificationType := JUndefined,
           ev_userCode := ev_UserCode event, ev_UserCode := JUndefined,
           ev_companyCode := ev_CompanyCode event, ev_CompanyCode := JUndefined\<rparr>"

section \<open>The modal guard installed in the page\<close>

text \<open>
  What the init script reads of the document: the error modal, and the \<open>textContent\<close>
  of its title and message elements (\<open>None\<close> when the element is missing).
\<close>

record page_document =
  errorModal :: "modal_element option"
  errorModalTitle :: "string option"
  errorModalMessage :: "string option"

text \<open>
  A navigation function of \<open>window.location\<close>: the browser's own, or a closure made by
  \<open>wrapNavigation\<close>, which holds the address of the \<open>state\<close> object of its setup, the
  name it logs, and the function it wraps.
\<close>

datatype nav_function = Native | Wrapper nat string nav_function

text \<open>
  The page as the init script sees and changes it. The \<open>state\<close> objects that the runs
  of \<open>setup\<close> create live in a store, addressed by position; \<open>window.__dianModalState\<close>
  holds the address of one of them or is undefined; every mutation observer and every
  wrapper refers to the object of the run that created it. \<open>pendingSetups\<close> counts the
  \<open>DOMContentLoaded\<close> listeners registered with \<open>setup\<close>; \<open>storedError\<close> is the entry
  \<open>__dianModalError\<close> of the session storage.
\<close>

record page =
  document :: page_document
  readyStateLoading :: bool
  storedError :: "string option"
  stateObjects :: "ModalGuardState list"
  dianModalState :: "nat option"
  observers :: "nat list"
  pendingSetups :: nat
  locationAssign :: nav_function
  locationReplace :: nav_function
  locationReload :: nav_function

definition isModalVisible :: "page_document \<Rightarrow> bool" where
  "isModalVisible doc = (case errorModal doc of None \<Rightarrow> False | Some modal \<Rightarrow> isVisible modal)"

definition capturedText :: "page_document \<Rightarrow> string" where
  "capturedText doc =
     modalText (case errorModalTitle doc of None \<Rightarrow> [] | Some t \<Rightarrow> trim t)
               (case errorModalMessage doc of None \<Rightarrow> [] | Some t \<Rightarrow> trim t)"

text \<open>\<open>captureModal\<close> of the setup whose \<open>state\<close> object is at address \<open>a\<close>.\<close>

definition captureModal :: "nat \<Rightarrow> page \<Rightarrow> page" where
  "captureModal a pg =
     (if \<not> isModalVisible (document pg) then pg
      else pg\<lparr>stateObjects :=
                (stateObjects pg)[a := (stateObjects pg ! a)\<lparr>lastError := Some (capturedText (document pg))\<rparr>],
              storedError := Some (capturedText (document pg))\<rparr>)"

text \<open>
  One run of the function \<open>setup\<close> of the init script: a new \<open>state\<close> object becomes
  \<open>window.__dianModalState\<close> and takes the persisted error, an observer is installed,
  the modal is captured, and the three navigation functions are wrapped.
\<close>

definition runSetup :: "page \<Rightarrow> page" where
  "runSetup pg =
     (let a = length (stateObjects pg);
          state = \<lparr>lastError = (if truthy (storedError pg) then storedError pg else None),
                   blockedRedirects = []\<rparr>;
          pg1 = captureModal a
                  (pg\<lparr>stateObjects := stateObjects pg @ [state], dianModalState := Some a,
                      observers := observers pg @ [a]\<rparr>)
      in pg1\<lparr>locationAssign := Wrapper a ''assign'' (locationAssign pg1),
             locationReplace := Wrapper a ''replace'' (locationReplace pg1),
             locationReload := Wrapper a ''reload'' (locationReload pg1)\<rparr>)"

text \<open>
  One evaluation of the init script that \<open>setupModalGuards\<close> registers: nothing when
  the marker \<open>window.__dianModalState\<close> is set; otherwise \<open>setup\<close> at once, or as a
  \<open>DOMContentLoaded\<close> listener while the document is loading.
\<close>

definition initScript :: "page \<Rightarrow> page" where
  "initScript pg =
     (if dianModalState pg \<noteq> None then pg
      else if readyStateLoading pg then pg\<lparr>pendingSetups := pendingSetups pg + 1\<rparr>
      else runSetup pg)"

text \<open>
  A call of a navigation function with its arguments at time \<open>now\<close>: the page after
  it, and whether the browser's own function was reached (the navigation happened).
\<close>

fun callNavigation :: "nav_function \<Rightarrow> string list \<Rightarrow> nat \<Rightarrow> page \<Rightarrow> page \<times> bool" where
  "callNavigation Native arguments now pg = (pg, True)"
| "callNavigation (Wrapper a fnName inner) arguments now pg =
     (let pg1 = captureModal a pg
      in if isModalVisible (document pg1)
         then (pg1\<lparr>stateObjects :=
                   (stateObjects pg1)[a := (stateObjects pg1 ! a)\<lparr>blockedRedirects :=
                      blockedRedirects (stateObjects pg1 ! a)
                        @ [\<lparr>fn = fnName, ts = now, args = arguments\<rparr>]\<rparr>]\<rparr>,
               False)
         else callNavigation inner arguments now pg1)"

datatype nav_name = Assign | Replace | Reload

fun locationFunction :: "nav_name \<Rightarrow> page \<Rightarrow> nav_function" where
  "locationFunction Assign pg = locationAssign pg"
| "locationFunction Replace pg = locationReplace pg"
| "locationFunction Reload pg = locationReload pg"

text \<open>
  What can happen on the page after the installation: the document finishes loading
  (the pending listeners run, once); the document changes; the mutation callbacks are
  delivered to every observer; the page calls a navigation function; the poller
  consumes the persisted error.
\<close>

datatype page_event =
    DomContentLoaded
  | DomChange page_document
  | MutationsDelivered
  | Navigate nav_name "string list" nat
  | ConsumeStored

fun step :: "page_event \<Rightarrow> page \<Rightarrow> page \<times> bool" where
  "step DomContentLoaded pg =
     ((runSetup ^^ pendingSetups pg) (pg\<lparr>readyStateLoading := False, pendingSetups := 0\<rparr>), False)"
| "step (DomChange doc) pg = (pg\<lparr>document := doc\<rparr>, False)"
| "step MutationsDelivered pg = (fold captureModal (observers pg) pg, False)"
| "step (Navigate name arguments now) pg = callNavigation (locationFunction name pg) arguments now pg"
| "step ConsumeStored pg = (pg\<lparr>storedError := None\<rparr>, False)"

text \<open>The events in turn, up to the first navigation that happens (it unloads the page).\<close>

fun runEvents :: "page_event list \<Rightarrow> page \<Rightarrow> page \<times> bool" where
  "runEvents [] pg = (pg, False)"
| "runEvents (e # es) pg =
     (case step e pg of (pg', navigated) \<Rightarrow> if navigated then (pg', True) else runEvents es pg')"

text \<open>
  What can be observed: the object \<open>getModalState\<close> reads (error field and log of
  blocked transitions), the persisted error, and whether a navigation happened.
\<close>

definition observedState :: "page \<Rightarrow> ModalGuardState option" where
  "observedState pg =
     (case dianModalState pg of
        None \<Rightarrow> None
      | Some a \<Rightarrow> if a < length (stateObjects pg) then Some (stateObjects pg ! a) else None)"

definition observation :: "page \<times> bool \<Rightarrow> ModalGuardState option \<times> string option \<times> bool" where
  "observation r = (observedState (fst r), storedError (fst r), snd r)"

text \<open>A document just created, before any init script ran.\<close>

definition newDocument :: "page_document \<Rightarrow> string option \<Rightarrow> bool \<Rightarrow> page" where
  "newDocument doc stored isLoading =
     \<lparr>document = doc, readyStateLoading = isLoading, storedError = stored, stateObjects = [],
      dianModalState = None, observers = [], pendingSetups = 0,
      locationAssign = Native, locationReplace = Native, locationReload = Native\<rparr>"

text \<open>
  How the page with two installations (\<open>d\<close>) relates to the page with one (\<open>s\<close>):
  before the document has finished loading, and after.
\<close>

definition simLoading :: "page \<Rightarrow> page \<Rightarrow> bool" where
  "simLoading d s =
     (d = s\<lparr>pendingSetups := 2\<rparr> \<and> pendingSetups s = 1 \<and> stateObjects s = [] \<and>
      dianModalState s = None \<and> observers s = [] \<and>
      locationAssign s = Native \<and> locationReplace s = Native \<and> locationReload s = Native)"

definition simLoaded :: "page \<Rightarrow> page \<Rightarrow> bool" where
  "simLoaded d s =
     (length (stateObjects s) = 1 \<and> length (stateObjects d) = 2 \<and>
      stateObjects d ! 1 = stateObjects s ! 0 \<and>
      dianModalState s = Some 0 \<and> dianModalState d = Some 1 \<and>
      observers s = [0] \<and> observers d = [0, 1] \<and>
      document d = document s \<and> storedError d = storedError s \<and>
      pendingSetups d = 0 \<and> pendingSetups s = 0 \<and>
      locationAssign s = Wrapper 0 ''assign'' Native \<and>
      locationAssign d = Wrapper 1 ''assign'' (Wrapper 0 ''assign'' Native) \<and>
      locationReplace s = Wrapper 0 ''replace'' Native \<and>
      locationReplace d = Wrapper 1 ''replace'' (Wrapper 0 ''replace'' Native) \<and>
      locationReload s = Wrapper 0 ''reload'' Native \<and>
      locationReload d = Wrapper 1 ''reload'' (Wrapper 0 ''reload'' Native))"

section \<open>Sample pages and worlds\<close>

text \<open>A page whose spinner never goes away, one that answers with no result, one with two cards.\<close>

definition stuckPage :: category_page where
  "stuckPage =
     \<lparr>selectRecordTypeOutcome = Got (), idInputOutcome = Got (), visibleButton = True,
      spinnerCleared = False, noResultsMessage = Got False, resultCards = Got [],
      linkClickOutcome = Got (), generalTabShown = True,
      detailOutcome = Got \<lparr>informacion_general = [], actividad_economica = [],
                            representante_legal = []\<rparr>\<rparr>"

definition emptyPage :: category_page where
  "emptyPage = stuckPage\<lparr>spinnerCleared := True, noResultsMessage := Got True\<rparr>"

definition foundPage :: category_page where
  "foundPage =
     stuckPage\<lparr>spinnerCleared := True,
       resultCards := Got
         [\<lparr>spans = [''Cancelada''], entries = [(''nombre'', ''DEMO VIEJA'')]\<rparr>,
          \<lparr>spans = [''Activa''],
           entries = [(''nombre'', ''DEMO''), (''tipo_empresa'', ''Sociedad''),
                      (''estado'', ''Activa'')]\<rparr>]\<rparr>"

definition readyEnv :: "(record_type \<Rightarrow> category_page) \<Rightarrow> rues_env" where
  "readyEnv pages =
     \<lparr>launchOutcome = Got (), newContextOutcome = Got (), setupPageOutcome = PageReady,
      site = (\<lambda>identification. pages)\<rparr>"

text \<open>
  Iterations of the poller: nothing on the page; a success alert; a success alert
  together with an error alert; a success alert together with a visible error modal.
\<close>

definition noModal :: modal_reading where
  "noModal = \<lparr>modalHandle = Got None, titleContent = Threw ''no element'',
              messageContent = Threw ''no element''\<rparr>"

definition quietTick :: poll_tick where
  "quietTick =
     \<lparr>storedModalError = Got None,
      modalState = Got (Some \<lparr>lastError = None, blockedRedirects = []\<rparr>),
      modalReading = noModal, successAlert = Got None, errorAlert = Got None,
      toastMessage = Got None, bodyText = Got [], isClosed = False,
      selectionButton = Got None, fallbackReading = noModal, waitOutcome = Got ()\<rparr>"

definition successTick :: poll_tick where
  "successTick = quietTick\<lparr>successAlert := Got (Some (Got '' Correo enviado ''))\<rparr>"

definition successAndAlertTick :: poll_tick where
  "successAndAlertTick = successTick\<lparr>errorAlert := Got (Some (Got ''Usuario no autorizado''))\<rparr>"

definition successAndModalTick :: poll_tick where
  "successAndModalTick =
     successTick\<lparr>modalReading :=
       \<lparr>modalHandle = Got (Some (Got \<lparr>display = ''block'', hasInClass = True, ariaHidden = None\<rparr>)),
        titleContent = Got ''Error'', messageContent = Got ''NIT no registrado''\<rparr>\<rparr>"

text \<open>Text with a non-breaking space (U+00A0): after \<open>Activa\<close>, and alone.\<close>

definition nbsp :: string where
  "nbsp = [CHR 0xC2, CHR 0xA0]"

definition activaNbsp :: string where
  "activaNbsp = ''Activa'' @ [CHR 0xC2, CHR 0xA0]"

definition blankSuccessTick :: poll_tick where
  "blankSuccessTick = quietTick\<lparr>successAlert := Got (Some (Got nbsp))\<rparr>"

definition dianEnv :: "poll_tick list \<Rightarrow> dian_env" where
  "dianEnv ticks =
     \<lparr>isLambda = True, initializeBrowserOutcome = Got (), contextOutcome = Got (),
      pageOutcome = Got (), setupModalGuardsOutcome = Got (), gotoOutcome = Got (),
      interactOutcome = (\<lambda>payload. Got ()), pollTicks = (\<lambda>payload. ticks),
      screenshotOutcome = Threw ''no screenshot''\<rparr>"

definition aliasEvent :: dian_event where
  "aliasEvent =
     \<lparr>ev_identificationType = JUndefined, ev_CompanyIdentificationType = JString ''10910094'',
      ev_userCode = JUndefined, ev_UserCode = JString ''1010168874'',
      ev_companyCode = JUndefined, ev_CompanyCode = JString ''901827899'',
      ev_origin = JString ''test'', ev_headlessD = JUndefined\<rparr>"

text \<open>A document still loading with no modal, and one still loading that shows the error modal.\<close>

definition loadingPage :: page where
  "loadingPage =
     newDocument \<lparr>errorModal = None, errorModalTitle = None, errorModalMessage = None\<rparr> None True"

definition modalDocument :: page_document where
  "modalDocument =
     \<lparr>errorModal = Some \<lparr>display = ''block'', hasInClass = True, ariaHidden = None\<rparr>,
      errorModalTitle = Some ''Error'', errorModalMessage = Some ''NIT no registrado''\<rparr>"

section \<open>Properties of the card choice\<close>

lemma firstActiveFrom_None:
  "firstActiveFrom i cs = None \<longleftrightarrow> (\<forall>c \<in> set cs. \<not> hasActiveSpan c)"
  by (induction cs arbitrary: i) auto

lemma firstActiveFrom_Some:
  "firstActiveFrom i cs = Some k \<Longrightarrow>
     i \<le> k \<and> k - i < length cs \<and> hasActiveSpan (cs ! (k - i)) \<and>
     (\<forall>j < k - i. \<not> hasActiveSpan (cs ! j))"
proof (induction cs arbitrary: i)
  case Nil
  then show ?case by simp
next
  case (Cons c cs)
  show ?case
  proof (cases "hasActiveSpan c")
    case True
    with Cons.prems show ?thesis by simp
  next
    case False
    with Cons.prems have rest: "firstActiveFrom (Suc i) cs = Some k" by simp
    from Cons.IH [OF rest] have ih: "Suc i \<le> k" "k - Suc i < length cs"
      "hasActiveSpan (cs ! (k - Suc i))" "\<forall>j < k - Suc i. \<not> hasActiveSpan (cs ! j)"
      by auto
    from ih(1) have step: "k - i = Suc (k - Suc i)" by arith
    have "\<forall>j < k - i. \<not> hasActiveSpan ((c # cs) ! j)"
    proof (intro allI impI)
      fix j assume "j < k - i"
      then show "\<not> hasActiveSpan ((c # cs) ! j)"
        using False ih(4) step by (cases j) auto
    qed
    with ih step show ?thesis by auto
  qed
qed

text \<open>
  C7. When there is at least one result card, the index returned is that of the first
  card holding a span whose trimmed text is exactly \<open>Activa\<close>; when no card holds one
  it is the index of the last card; and \<open>Card no encontrada\<close> is raised exactly when
  there is no card at all.
\<close>

theorem getCardStatusActive_choice:
  "(cards \<noteq> [] \<longrightarrow>
     (\<exists>k < length cards. getCardStatusActive cards = Inr (int k) \<and>
        (if \<exists>c \<in> set cards. hasActiveSpan c
         then hasActiveSpan (cards ! k) \<and> (\<forall>j < k. \<not> hasActiveSpan (cards ! j))
         else k = length cards - 1))) \<and>
   (getCardStatusActive cards = Inl (plainError ''Card no encontrada'') \<longleftrightarrow> cards = [])"
proof (intro conjI impI)
  assume ne: "cards \<noteq> []"
  show "\<exists>k < length cards. getCardStatusActive cards = Inr (int k) \<and>
        (if \<exists>c \<in> set cards. hasActiveSpan c
         then hasActiveSpan (cards ! k) \<and> (\<forall>j < k. \<not> hasActiveSpan (cards ! j))
         else k = length cards - 1)"
  proof (cases "firstActiveFrom 0 cards")
    case None
    from None have no: "\<not> (\<exists>c \<in> set cards. hasActiveSpan c)"
      by (simp add: firstActiveFrom_None)
    from ne None have "getCardStatusActive cards = Inr (int (length cards - 1))"
      by (cases cards) (simp_all add: getCardStatusActive_def cardIndexInPage_def)
    with ne no show ?thesis by (intro exI [of _ "length cards - 1"]) simp
  next
    case (Some k)
    from firstActiveFrom_Some [OF Some]
    have k: "k < length cards" "hasActiveSpan (cards ! k)" "\<forall>j < k. \<not> hasActiveSpan (cards ! j)"
      by auto
    then have ex: "\<exists>c \<in> set cards. hasActiveSpan c" using nth_mem by blast
    from Some have "getCardStatusActive cards = Inr (int k)"
      by (simp add: getCardStatusActive_def cardIndexInPage_def)
    with k ex show ?thesis by (intro exI [of _ k]) simp
  qed
next
  show "getCardStatusActive cards = Inl (plainError ''Card no encontrada'') \<longleftrightarrow> cards = []"
    by (cases "firstActiveFrom 0 cards"; cases cards)
      (auto simp: getCardStatusActive_def cardIndexInPage_def)
qed

lemma hasActiveSpan_simps:
  "hasActiveSpan \<lparr>spans = [], entries = es\<rparr> = False"
  "hasActiveSpan \<lparr>spans = x # xs, entries = es\<rparr> =
     (trim x = ''Activa'' \<or> hasActiveSpan \<lparr>spans = xs, entries = es\<rparr>)"
  by (simp_all add: hasActiveSpan_def)

lemma trim_examples:
  "trim ''Cancelada'' = ''Cancelada''"
  "trim '' Activa '' = ''Activa''"
  "trim ''Activa'' = ''Activa''"
  "trim ''Inactiva'' = ''Inactiva''"
  "trim ''900123456'' = ''900123456''"
  "trim activaNbsp = ''Activa''"
  "trim nbsp = []"
  "trim '' Correo enviado '' = ''Correo enviado''"
  "trim ''Usuario no autorizado'' = ''Usuario no autorizado''"
  "trim ''Error'' = ''Error''"
  "trim ''NIT no registrado'' = ''NIT no registrado''"
  by (simp_all add: trim_def whiteSpace_def activaNbsp_def nbsp_def)

theorem getCardStatusActive_choice_witness:
  "[\<lparr>spans = [''Cancelada''], entries = []\<rparr>,
    \<lparr>spans = [''900123456'', '' Activa ''], entries = []\<rparr>,
    \<lparr>spans = [''Activa''], entries = []\<rparr>] \<noteq> [] \<and>
   getCardStatusActive
     [\<lparr>spans = [''Cancelada''], entries = []\<rparr>,
      \<lparr>spans = [''900123456'', '' Activa ''], entries = []\<rparr>,
      \<lparr>spans = [''Activa''], entries = []\<rparr>] = Inr 1 \<and>
   getCardStatusActive
     [\<lparr>spans = [''Cancelada''], entries = []\<rparr>,
      \<lparr>spans = [''Inactiva''], entries = []\<rparr>] = Inr 1 \<and>
   getCardStatusActive
     [\<lparr>spans = [activaNbsp], entries = []\<rparr>,
      \<lparr>spans = [''Cancelada''], entries = []\<rparr>] = Inr 0 \<and>
   getCardStatusActive [] = Inl (plainError ''Card no encontrada'')"
proof -
  let ?n = "[\<lparr>spans = [activaNbsp], entries = []\<rparr>,
      \<lparr>spans = [''Cancelada''], entries = []\<rparr>]"
  from getCardStatusActive_choice [of ?n]
  obtain i where i: "i < length ?n" "getCardStatusActive ?n = Inr (int i)"
    "\<forall>j < i. \<not> hasActiveSpan (?n ! j)"
    by (auto simp: hasActiveSpan_simps trim_examples)
  have "i = 0"
  proof (rule ccontr)
    assume "i \<noteq> 0"
    with i(3) have "\<not> hasActiveSpan (?n ! 0)" by blast
    then show False by (simp add: hasActiveSpan_simps trim_examples)
  qed
  with i(2) have n: "getCardStatusActive ?n = Inr 0" by simp
  let ?a = "[\<lparr>spans = [''Cancelada''], entries = []\<rparr>,
    \<lparr>spans = [''900123456'', '' Activa ''], entries = []\<rparr>,
    \<lparr>spans = [''Activa''], entries = []\<rparr>]"
  let ?b = "[\<lparr>spans = [''Cancelada''], entries = []\<rparr>,
      \<lparr>spans = [''Inactiva''], entries = []\<rparr>]"
  from getCardStatusActive_choice [of ?a]
  obtain k where k: "k < length ?a" "getCardStatusActive ?a = Inr (int k)"
    "hasActiveSpan (?a ! k)" "\<forall>j < k. \<not> hasActiveSpan (?a ! j)"
    by (auto simp: hasActiveSpan_simps trim_examples)
  have "k = 1"
  proof (rule ccontr)
    assume "k \<noteq> 1"
    with k(1) have "k = 0 \<or> k = 2" by auto
    then show False
    proof
      assume "k = 0"
      with k(3) show False by (simp add: hasActiveSpan_simps trim_examples)
    next
      assume "k = 2"
      with k(4) have "\<not> hasActiveSpan (?a ! Suc 0)" by (auto elim: allE [of _ "Suc 0"])
      then show False by (simp add: hasActiveSpan_simps trim_examples)
    qed
  qed
  with k(2) have a: "getCardStatusActive ?a = Inr 1" by simp
  from getCardStatusActive_choice [of ?b]
  have b: "getCardStatusActive ?b = Inr 1"
    by (auto simp: hasActiveSpan_simps trim_examples)
  from getCardStatusActive_choice [of "[]"]
  have c: "getCardStatusActive [] = Inl (plainError ''Card no encontrada'')" by simp
  from a b n c show ?thesis by simp
qed

text \<open>
  C10. With at least one result card, \<open>getCardStatusActive\<close> returns an index \<open>i\<close>
  with \<open>0 \<le> i < length cards\<close>, so that \<open>cards[i]\<close> is a card; and it fails only when
  there is no result card.
\<close>

theorem getCardStatusActive_in_range:
  "(cards \<noteq> [] \<longrightarrow>
      (\<exists>i. getCardStatusActive cards = Inr i \<and> 0 \<le> i \<and> i < int (length cards) \<and>
           cardAt cards i = Some (cards ! nat i))) \<and>
   (isl (getCardStatusActive cards) \<longrightarrow> cards = [])"
proof (intro conjI impI)
  assume ne: "cards \<noteq> []"
  show "\<exists>i. getCardStatusActive cards = Inr i \<and> 0 \<le> i \<and> i < int (length cards) \<and>
           cardAt cards i = Some (cards ! nat i)"
  proof (cases "firstActiveFrom 0 cards")
    case None
    with ne have "getCardStatusActive cards = Inr (int (length cards) - 1)"
      by (cases cards) (simp_all add: getCardStatusActive_def cardIndexInPage_def)
    with ne show ?thesis by (cases cards) (simp_all add: cardAt_def)
  next
    case (Some k)
    from firstActiveFrom_Some [OF Some] have "k < length cards" by simp
    moreover from Some have "getCardStatusActive cards = Inr (int k)"
      by (simp add: getCardStatusActive_def cardIndexInPage_def)
    ultimately show ?thesis by (simp add: cardAt_def)
  qed
next
  assume "isl (getCardStatusActive cards)"
  then show "cards = []"
    by (cases "firstActiveFrom 0 cards"; cases cards)
      (auto simp: getCardStatusActive_def cardIndexInPage_def)
qed

theorem getCardStatusActive_in_range_witness:
  "[\<lparr>spans = [''Cancelada''], entries = []\<rparr>, \<lparr>spans = [''Inactiva''], entries = []\<rparr>] \<noteq> [] \<and>
   (\<exists>i. getCardStatusActive
          [\<lparr>spans = [''Cancelada''], entries = []\<rparr>, \<lparr>spans = [''Inactiva''], entries = []\<rparr>] = Inr i \<and>
        0 \<le> i \<and> i < 2) \<and>
   isl (getCardStatusActive []) \<and> ([] :: result_card list) = []"
proof -
  from getCardStatusActive_in_range
    [of "[\<lparr>spans = [''Cancelada''], entries = []\<rparr>, \<lparr>spans = [''Inactiva''], entries = []\<rparr>]"]
  have "\<exists>i. getCardStatusActive
          [\<lparr>spans = [''Cancelada''], entries = []\<rparr>, \<lparr>spans = [''Inactiva''], entries = []\<rparr>] = Inr i \<and>
        0 \<le> i \<and> i < 2"
    by auto
  moreover have "isl (getCardStatusActive [])"
    by (simp add: getCardStatusActive_def cardIndexInPage_def)
  ultimately show ?thesis by simp
qed

section \<open>Properties of the registry search\<close>

lemma extractInformation_code: "extractInformation pg = Inl e \<Longrightarrow> code e = None"
  by (auto simp: extractInformation_def extractBasicInfo_def getCardStatusActive_def
      waitForDetailTabs_def plainError_def Let_def
      split: attempt.splits sum.splits if_splits option.splits)

lemma indicatorNeverClears_step:
  "indicatorNeverClears pg \<Longrightarrow>
     selectRecordType pg = Inr () \<and> enterIdentificationAndSubmit pg = Inr False"
  by (simp add: indicatorNeverClears_def selectRecordType_def enterIdentificationAndSubmit_def)

lemma searchLoop_stuck:
  "\<forall>t \<in> set tys. indicatorNeverClears (pages t) \<Longrightarrow>
     searchLoop pages ident flag tys = Inl (if flag then apiError ident else notFoundError ident)"
  by (induction tys arbitrary: flag) (simp_all add: indicatorNeverClears_step)

lemma searchLoop_not_found:
  "searchLoop pages ident flag tys = Inl e \<Longrightarrow> code e = Some ''NOT_FOUND'' \<Longrightarrow>
     (\<not> flag \<or> (\<exists>t \<in> set tys. apiResponded (pages t))) \<and>
     (\<forall>t \<in> set tys. \<not> recordFound (pages t))"
proof (induction tys arbitrary: flag)
  case Nil
  then show ?case by (auto simp: apiError_def split: if_splits)
next
  case (Cons t tys)
  from Cons.prems obtain u where sel: "selectRecordType (pages t) = Inr u"
    by (cases "selectRecordType (pages t)")
       (auto simp: selectRecordType_def plainError_def split: attempt.splits)
  from Cons.prems sel obtain r where sub: "enterIdentificationAndSubmit (pages t) = Inr r"
    by (cases "enterIdentificationAndSubmit (pages t)")
       (auto simp: enterIdentificationAndSubmit_def plainError_def split: attempt.splits if_splits)
  show ?case
  proof (cases r)
    case False
    with Cons.prems sel sub have "searchLoop pages ident flag tys = Inl e" by simp
    from Cons.IH [OF this Cons.prems(2)] False sub show ?thesis
      by (auto simp: recordFound_def apiResponded_def)
  next
    case True
    show ?thesis
    proof (cases "verifyResults (pages t)")
      case found: True
      with Cons.prems sel sub True have "extractInformation (pages t) = Inl e"
        by (auto split: sum.splits)
      with Cons.prems(2) show ?thesis by (simp add: extractInformation_code)
    next
      case False
      with Cons.prems sel sub True have "searchLoop pages ident False tys = Inl e" by simp
      from Cons.IH [OF this Cons.prems(2)] False True sub show ?thesis
        by (auto simp: recordFound_def apiResponded_def)
    qed
  qed
qed

lemma searchLoop_found:
  "searchLoop pages ident flag tys = Inr d \<Longrightarrow>
     \<exists>t r. find (\<lambda>t. recordFound (pages t)) tys = Some t \<and>
           extractInformation (pages t) = Inr r \<and>
           d = r(''tipo_empresa'' \<mapsto> JStr (mapRecords t))"
proof (induction tys arbitrary: flag)
  case Nil
  then show ?case by (simp split: if_splits)
next
  case (Cons t tys)
  from Cons.prems obtain u where sel: "selectRecordType (pages t) = Inr u"
    by (cases "selectRecordType (pages t)") auto
  from Cons.prems sel obtain r where sub: "enterIdentificationAndSubmit (pages t) = Inr r"
    by (cases "enterIdentificationAndSubmit (pages t)") auto
  show ?case
  proof (cases "recordFound (pages t)")
    case True
    with sub have "r" "verifyResults (pages t)"
      by (auto simp: recordFound_def apiResponded_def)
    with Cons.prems sel sub True show ?thesis
      by (auto split: sum.splits)
  next
    case False
    with sub have "\<not> (r \<and> verifyResults (pages t))"
      by (auto simp: recordFound_def apiResponded_def)
    with Cons.prems sel sub have "\<exists>f. searchLoop pages ident f tys = Inr d"
      by (auto split: if_splits)
    then obtain f where "searchLoop pages ident f tys = Inr d" ..
    from Cons.IH [OF this] False show ?thesis by simp
  qed
qed

lemma recordTypes_all: "t \<in> set recordTypes"
  by (cases t) (simp_all add: recordTypes_def)

lemma ruesHandle_coded:
  "ruesHandle env p = (Inl e, tr) \<Longrightarrow> code e \<noteq> None \<Longrightarrow>
     searchByIdentification (site env (identificationNumber p)) (identificationNumber p) = Inl e"
  by (auto simp: ruesHandle_def plainError_def split: if_splits attempt.splits page_setup.splits)

lemma ruesHandle_found:
  "ruesHandle env p = (Inr d, tr) \<Longrightarrow>
     searchByIdentification (site env (identificationNumber p)) (identificationNumber p) = Inr d"
  by (auto simp: ruesHandle_def split: if_splits attempt.splits page_setup.splits)

lemma ruesHandler_not_found_code:
  assumes "errorCode (body (fst (ruesHandler env event))) = Some ''NOT_FOUND'' \<or>
           statusCode (fst (ruesHandler env event)) = 404"
  shows "\<exists>e tr. ruesHandle env (ruesPayloadOf event) = (Inl e, tr) \<and> code e = Some ''NOT_FOUND''"
proof (cases "ruesHandle env (ruesPayloadOf event)")
  case (Pair res tr)
  show ?thesis
  proof (cases res)
    case (Inl e)
    with Pair assms have "code e = Some ''NOT_FOUND''"
      by (auto simp: ruesHandler_def statusOfCode_def errorCodeOrUnknown_def
          split: if_splits option.splits)
    with Pair Inl show ?thesis by simp
  next
    case (Inr d)
    with Pair assms show ?thesis by (simp add: ruesHandler_def)
  qed
qed

text \<open>
  C3. When the browser session is ready and, for each of RM, ESAL and ESOL, the in-flight
  indicator is awaited and never clears, the invocation answers 503 with error code
  \<open>API_ERROR\<close>, not 404. And an answer 404 or \<open>NOT_FOUND\<close> is given only when the
  API responded for at least one record type and no record type reported a record.
\<close>

theorem all_indicators_stuck_is_api_error:
  "(toStringJs (ev_identificationNumber event) \<noteq> [] \<and>
    launchOutcome env = Got () \<and> newContextOutcome env = Got () \<and>
    setupPageOutcome env = PageReady \<and>
    (\<forall>t. indicatorNeverClears (site env (toStringJs (ev_identificationNumber event)) t))
    \<longrightarrow> statusCode (fst (ruesHandler env event)) = 503 \<and>
        errorCode (body (fst (ruesHandler env event))) = Some ''API_ERROR'' \<and>
        \<not> success (body (fst (ruesHandler env event)))) \<and>
   (errorCode (body (fst (ruesHandler env event))) = Some ''NOT_FOUND'' \<or>
    statusCode (fst (ruesHandler env event)) = 404
    \<longrightarrow> (\<exists>t. apiResponded (site env (toStringJs (ev_identificationNumber event)) t)) \<and>
        (\<forall>t. \<not> recordFound (site env (toStringJs (ev_identificationNumber event)) t)))"
proof (intro conjI impI)
  let ?ident = "toStringJs (ev_identificationNumber event)"
  assume h: "?ident \<noteq> [] \<and>
    launchOutcome env = Got () \<and> newContextOutcome env = Got () \<and>
    setupPageOutcome env = PageReady \<and> (\<forall>t. indicatorNeverClears (site env ?ident t))"
  then have "searchByIdentification (site env ?ident) ?ident = Inl (apiError ?ident)"
    using searchLoop_stuck [of recordTypes "site env ?ident" ?ident True]
    by (simp add: searchByIdentification_def)
  with h have res: "ruesHandle env (ruesPayloadOf event)
      = (Inl (apiError ?ident), [LaunchBrowser, NewContext, NewPage, ClosePage, CloseContext, CloseBrowser])"
    by (simp add: ruesHandle_def ruesPayloadOf_def)
  show "statusCode (fst (ruesHandler env event)) = 503"
    by (simp add: ruesHandler_def res apiError_def statusOfCode_def)
  show "errorCode (body (fst (ruesHandler env event))) = Some ''API_ERROR''"
    by (simp add: ruesHandler_def res apiError_def errorCodeOrUnknown_def)
  show "\<not> success (body (fst (ruesHandler env event)))"
    by (simp add: ruesHandler_def res)
next
  let ?ident = "toStringJs (ev_identificationNumber event)"
  assume "errorCode (body (fst (ruesHandler env event))) = Some ''NOT_FOUND'' \<or>
    statusCode (fst (ruesHandler env event)) = 404"
  from ruesHandler_not_found_code [OF this] obtain e tr where
    e: "ruesHandle env (ruesPayloadOf event) = (Inl e, tr)" "code e = Some ''NOT_FOUND''"
    by blast
  from ruesHandle_coded [OF e(1)] e(2)
  have "searchLoop (site env ?ident) ?ident True recordTypes = Inl e"
    by (simp add: searchByIdentification_def ruesPayloadOf_def)
  from searchLoop_not_found [OF this e(2)]
  have "(\<exists>t \<in> set recordTypes. apiResponded (site env ?ident t)) \<and>
        (\<forall>t \<in> set recordTypes. \<not> recordFound (site env ?ident t))"
    by simp
  then have both: "(\<exists>t. apiResponded (site env ?ident t)) \<and> (\<forall>t. \<not> recordFound (site env ?ident t))"
    using recordTypes_all by blast
  from both show "\<exists>t. apiResponded (site env ?ident t)" ..
  from both show "\<forall>t. \<not> recordFound (site env ?ident t)" ..
qed

lemma stuckPage_stuck: "indicatorNeverClears stuckPage"
  by (simp add: indicatorNeverClears_def stuckPage_def)

lemma emptyPage_steps:
  "selectRecordType emptyPage = Inr ()"
  "enterIdentificationAndSubmit emptyPage = Inr True"
  "verifyResults emptyPage = False"
  by (simp_all add: emptyPage_def stuckPage_def selectRecordType_def
      enterIdentificationAndSubmit_def verifyResults_def)

lemma all_empty_not_found:
  "ruesHandler (readyEnv (\<lambda>t. emptyPage))
     \<lparr>ev_identificationNumber = JString ''000000000'', ev_headless = JUndefined\<rparr>
   = (\<lparr>statusCode = 404,
       body = \<lparr>success = False, data = None,
               error = Some (message (notFoundError ''000000000'')),
               errorCode = Some ''NOT_FOUND''\<rparr>\<rparr>,
      [LaunchBrowser, NewContext, NewPage, ClosePage, CloseContext, CloseBrowser])"
  by (simp add: ruesHandler_def ruesHandle_def ruesPayloadOf_def readyEnv_def
      searchByIdentification_def recordTypes_def emptyPage_steps notFoundError_def
      statusOfCode_def errorCodeOrUnknown_def)

theorem all_indicators_stuck_is_api_error_witness:
  "statusCode (fst (ruesHandler (readyEnv (\<lambda>t. stuckPage))
     \<lparr>ev_identificationNumber = JString ''900123456'', ev_headless = JUndefined\<rparr>)) = 503 \<and>
   errorCode (body (fst (ruesHandler (readyEnv (\<lambda>t. stuckPage))
     \<lparr>ev_identificationNumber = JString ''900123456'', ev_headless = JUndefined\<rparr>))) = Some ''API_ERROR'' \<and>
   statusCode (fst (ruesHandler (readyEnv (\<lambda>t. emptyPage))
     \<lparr>ev_identificationNumber = JString ''000000000'', ev_headless = JUndefined\<rparr>)) = 404 \<and>
   (\<exists>t. apiResponded (emptyPage :: category_page)) \<and> \<not> recordFound emptyPage"
proof -
  have a: "statusCode (fst (ruesHandler (readyEnv (\<lambda>t. stuckPage))
     \<lparr>ev_identificationNumber = JString ''900123456'', ev_headless = JUndefined\<rparr>)) = 503 \<and>
   errorCode (body (fst (ruesHandler (readyEnv (\<lambda>t. stuckPage))
     \<lparr>ev_identificationNumber = JString ''900123456'', ev_headless = JUndefined\<rparr>))) = Some ''API_ERROR''"
    using all_indicators_stuck_is_api_error
      [of "\<lparr>ev_identificationNumber = JString ''900123456'', ev_headless = JUndefined\<rparr>"
          "readyEnv (\<lambda>t. stuckPage)"]
    by (simp add: readyEnv_def stuckPage_stuck)
  have b: "statusCode (fst (ruesHandler (readyEnv (\<lambda>t. emptyPage))
     \<lparr>ev_identificationNumber = JString ''000000000'', ev_headless = JUndefined\<rparr>)) = 404"
    by (simp add: all_empty_not_found)
  have c: "(\<exists>t::record_type. apiResponded emptyPage) \<and> \<not> recordFound emptyPage"
    using b all_indicators_stuck_is_api_error
      [of "\<lparr>ev_identificationNumber = JString ''000000000'', ev_headless = JUndefined\<rparr>"
          "readyEnv (\<lambda>t. emptyPage)"]
    by (simp add: readyEnv_def)
  from a b c show ?thesis by simp
qed

text \<open>
  C4. When a registry-search invocation answers with a record, the record was found
  under the first record type \<open>t\<close> whose API responded with results, and the answer is
  the extracted record with \<open>tipo_empresa\<close> replaced by the label of \<open>t\<close>, whatever
  the extraction put there.
\<close>

theorem found_record_has_category_label:
  "success (body (fst (ruesHandler env event))) \<longrightarrow>
     (\<exists>t r d.
        find (\<lambda>t. recordFound (site env (toStringJs (ev_identificationNumber event)) t)) recordTypes
          = Some t \<and>
        extractInformation (site env (toStringJs (ev_identificationNumber event)) t) = Inr r \<and>
        data (body (fst (ruesHandler env event))) = Some d \<and>
        d = r(''tipo_empresa'' \<mapsto> JStr (mapRecords t)) \<and>
        d ''tipo_empresa'' = Some (JStr (mapRecords t)))"
proof
  let ?ident = "toStringJs (ev_identificationNumber event)"
  assume ok: "success (body (fst (ruesHandler env event)))"
  obtain res tr where res: "ruesHandle env (ruesPayloadOf event) = (res, tr)"
    by (cases "ruesHandle env (ruesPayloadOf event)")
  with ok obtain d where d: "res = Inr d"
    by (cases res) (simp_all add: ruesHandler_def)
  from res d have dat: "data (body (fst (ruesHandler env event))) = Some d"
    by (simp add: ruesHandler_def)
  from ruesHandle_found [of env "ruesPayloadOf event" d tr] res d
  have "searchLoop (site env ?ident) ?ident True recordTypes = Inr d"
    by (simp add: searchByIdentification_def ruesPayloadOf_def)
  from searchLoop_found [OF this] obtain t r where
    "find (\<lambda>t. recordFound (site env ?ident t)) recordTypes = Some t"
    "extractInformation (site env ?ident t) = Inr r"
    "d = r(''tipo_empresa'' \<mapsto> JStr (mapRecords t))"
    by blast
  with dat show "\<exists>t r d.
        find (\<lambda>t. recordFound (site env ?ident t)) recordTypes = Some t \<and>
        extractInformation (site env ?ident t) = Inr r \<and>
        data (body (fst (ruesHandler env event))) = Some d \<and>
        d = r(''tipo_empresa'' \<mapsto> JStr (mapRecords t)) \<and>
        d ''tipo_empresa'' = Some (JStr (mapRecords t))"
    by auto
qed

lemma foundPage_steps:
  "selectRecordType foundPage = Inr ()"
  "enterIdentificationAndSubmit foundPage = Inr True"
  "verifyResults foundPage = True"
  by (simp_all add: foundPage_def stuckPage_def selectRecordType_def
      enterIdentificationAndSubmit_def verifyResults_def)

lemma foundPage_cards:
  "getCardStatusActive
     [\<lparr>spans = [''Cancelada''], entries = [(''nombre'', ''DEMO VIEJA'')]\<rparr>,
      \<lparr>spans = [''Activa''],
       entries = [(''nombre'', ''DEMO''), (''tipo_empresa'', ''Sociedad''), (''estado'', ''Activa'')]\<rparr>]
   = Inr 1"
  by (simp add: getCardStatusActive_def cardIndexInPage_def hasActiveSpan_simps trim_examples)

lemma foundPage_extracted:
  "\<exists>r. extractInformation foundPage = Inr r \<and> r ''tipo_empresa'' = Some (JStr ''Sociedad'') \<and>
       r ''nombre'' = Some (JStr ''DEMO'')"
  by (simp add: extractInformation_def foundPage_def stuckPage_def extractBasicInfo_def
      foundPage_cards cardAt_def waitForDetailTabs_def objectOf_def nombreOf_def map_add_def)

theorem found_record_has_category_label_witness:
  "success (body (fst (ruesHandler (readyEnv (\<lambda>t. if t = ESAL then foundPage else emptyPage))
     \<lparr>ev_identificationNumber = JString ''900123456'', ev_headless = JUndefined\<rparr>))) \<and>
   (\<exists>r. extractInformation foundPage = Inr r \<and> r ''tipo_empresa'' = Some (JStr ''Sociedad'')) \<and>
   (\<exists>d. data (body (fst (ruesHandler (readyEnv (\<lambda>t. if t = ESAL then foundPage else emptyPage))
           \<lparr>ev_identificationNumber = JString ''900123456'', ev_headless = JUndefined\<rparr>))) = Some d \<and>
        d ''tipo_empresa'' = Some (JStr ''Entidades sin animo de lucro''))"
proof -
  let ?env = "readyEnv (\<lambda>t. if t = ESAL then foundPage else emptyPage)"
  let ?ev = "\<lparr>ev_identificationNumber = JString ''900123456'', ev_headless = JUndefined\<rparr>"
  obtain r where r: "extractInformation foundPage = Inr r" "r ''tipo_empresa'' = Some (JStr ''Sociedad'')"
    using foundPage_extracted by blast
  have ok: "success (body (fst (ruesHandler ?env ?ev)))"
    by (simp add: ruesHandler_def ruesHandle_def ruesPayloadOf_def readyEnv_def
        searchByIdentification_def recordTypes_def emptyPage_steps foundPage_steps r)
  have fnd: "find (\<lambda>t. recordFound (site ?env (toStringJs (ev_identificationNumber ?ev)) t)) recordTypes
      = Some ESAL"
    by (simp add: readyEnv_def recordTypes_def recordFound_def apiResponded_def
        emptyPage_steps foundPage_steps)
  from found_record_has_category_label [of ?env ?ev] ok fnd
  have "\<exists>d. data (body (fst (ruesHandler ?env ?ev))) = Some d \<and>
        d ''tipo_empresa'' = Some (JStr ''Entidades sin animo de lucro'')"
    by auto
  with ok r show ?thesis by blast
qed

text \<open>
  C6, as stated, fails: with the empty string as \<open>identificationNumber\<close> the answer is
  500, not a 4xx status; and with \<open>identificationNumber\<close> absent the payload holds the
  string \<open>undefined\<close>, which passes the check, so a browser is launched.
\<close>

theorem empty_identification_counterexample:
  "statusCode (fst (ruesHandler (readyEnv (\<lambda>t. emptyPage))
      \<lparr>ev_identificationNumber = JString [], ev_headless = JUndefined\<rparr>)) = 500 \<and>
   \<not> (400 \<le> statusCode (fst (ruesHandler (readyEnv (\<lambda>t. emptyPage))
      \<lparr>ev_identificationNumber = JString [], ev_headless = JUndefined\<rparr>)) \<and>
      statusCode (fst (ruesHandler (readyEnv (\<lambda>t. emptyPage))
      \<lparr>ev_identificationNumber = JString [], ev_headless = JUndefined\<rparr>)) < 500) \<and>
   identificationNumber (ruesPayloadOf \<lparr>ev_identificationNumber = JUndefined, ev_headless = JUndefined\<rparr>)
     = ''undefined'' \<and>
   snd (ruesHandler (readyEnv (\<lambda>t. emptyPage))
      \<lparr>ev_identificationNumber = JUndefined, ev_headless = JUndefined\<rparr>)
     = [LaunchBrowser, NewContext, NewPage, ClosePage, CloseContext, CloseBrowser]"
  by (simp add: ruesHandler_def ruesHandle_def ruesPayloadOf_def readyEnv_def plainError_def
      statusOfCode_def searchByIdentification_def recordTypes_def emptyPage_steps)

text \<open>
  C6, amended. When \<open>identificationNumber\<close> is the empty string, the invocation fails
  with the validation message before any browser, context or page is acquired, and the
  answer has status 500 with error code \<open>UNKNOWN_ERROR\<close>.
\<close>

theorem empty_identification_fails_first:
  "ev_identificationNumber event = JString [] \<longrightarrow>
     ruesHandler env event =
       (\<lparr>statusCode = 500,
         body = \<lparr>success = False, data = None,
                 error = Some (''La identificaci'' @ oacute @ ''n es requerida.''),
                 errorCode = Some ''UNKNOWN_ERROR''\<rparr>\<rparr>, [])"
  by (simp add: ruesHandler_def ruesHandle_def ruesPayloadOf_def plainError_def
      statusOfCode_def errorCodeOrUnknown_def)

theorem empty_identification_fails_first_witness:
  "ev_identificationNumber \<lparr>ev_identificationNumber = JString [], ev_headless = JBoolean False\<rparr>
     = JString [] \<and>
   ruesHandler (readyEnv (\<lambda>t. foundPage))
     \<lparr>ev_identificationNumber = JString [], ev_headless = JBoolean False\<rparr> =
       (\<lparr>statusCode = 500,
         body = \<lparr>success = False, data = None,
                 error = Some (''La identificaci'' @ oacute @ ''n es requerida.''),
                 errorCode = Some ''UNKNOWN_ERROR''\<rparr>\<rparr>, [])"
  using empty_identification_fails_first
    [of "\<lparr>ev_identificationNumber = JString [], ev_headless = JBoolean False\<rparr>"
        "readyEnv (\<lambda>t. foundPage)"]
  by simp

section \<open>Properties of the secondary challenge provider\<close>

lemma pollLoop_not_ready:
  "notReady (results a) \<Longrightarrow> a < 15 \<Longrightarrow>
     pollLoop results a =
       (case pollLoop results (a + 1) of (s, tr) \<Rightarrow> (s, PollRequest # Wait 7000 # tr))"
  by (subst pollLoop.simps) (simp add: notReady_def split: attempt.splits)

lemma pollLoop_rounds:
  "a + k \<le> 15 \<Longrightarrow> (\<forall>j. a \<le> j \<and> j < a + k \<longrightarrow> notReady (results j)) \<Longrightarrow>
     pollLoop results a = (case pollLoop results (a + k) of (s, tr) \<Rightarrow> (s, rounds k @ tr))"
proof (induction k arbitrary: a)
  case 0
  then show ?case by (simp add: rounds_def split: prod.splits)
next
  case (Suc k)
  from Suc.prems have here: "notReady (results a)" "a < 15" by auto
  from Suc.prems have "pollLoop results (a + 1) =
      (case pollLoop results (a + 1 + k) of (s, tr) \<Rightarrow> (s, rounds k @ tr))"
    by (intro Suc.IH) auto
  with pollLoop_not_ready [of results a] here show ?case
    by (simp add: rounds_def split: prod.splits)
qed

lemma pollLoop_rejected:
  "a < 15 \<Longrightarrow> results a = Threw m \<Longrightarrow> pollLoop results a = (None, [PollRequest])"
  by (subst pollLoop.simps) simp

lemma pollLoop_ready:
  "a < 15 \<Longrightarrow> results a = Got r \<Longrightarrow> status r = 1 \<Longrightarrow>
     pollLoop results a = (Some (request r), [PollRequest])"
  by (subst pollLoop.simps) simp

lemma pollLoop_exhausted: "pollLoop results 15 = (None, [])"
  by (subst pollLoop.simps) simp

lemma pollCount_simps:
  "pollCount [] = 0"
  "pollCount (PollRequest # tr) = Suc (pollCount tr)"
  "pollCount (Wait n # tr) = pollCount tr"
  "pollCount (SubmitRequest # tr) = pollCount tr"
  by (simp_all add: pollCount_def)

lemma pollCount_rounds: "pollCount (rounds k @ tr) = k + pollCount tr"
  by (induction k) (simp_all add: rounds_def pollCount_def)

lemma pollLoop_count: "pollCount (snd (pollLoop results a)) \<le> 15 - a"
proof (induction results a rule: pollLoop.induct)
  case (1 results attempts)
  show ?case
  proof (cases "attempts < 15")
    case False
    then show ?thesis by (subst pollLoop.simps) (simp add: pollCount_simps)
  next
    case True
    show ?thesis
    proof (cases "results attempts")
      case (Threw m)
      with True show ?thesis by (simp add: pollLoop_rejected pollCount_simps)
    next
      case (Got r)
      show ?thesis
      proof (cases "status r = 1")
        case ready: True
        with True Got show ?thesis by (simp add: pollLoop_ready pollCount_simps)
      next
        case False
        from "1.IH" [OF True Got False]
        have "pollCount (snd (pollLoop results (attempts + 1))) \<le> 15 - (attempts + 1)" .
        moreover from Got False have "notReady (results attempts)" by (simp add: notReady_def)
        ultimately show ?thesis using True
          by (simp add: pollLoop_not_ready pollCount_simps case_prod_beta)
      qed
    qed
  qed
qed

text \<open>
  C2, as stated, fails: when the first status request is rejected and the job would be
  reported complete at the next one, the code stops after that single request and
  returns absent, whereas polling that treats a rejection as "not yet ready" goes on and
  returns the token.
\<close>

theorem poll_failure_counterexample:
  "solveCaptcha2Captcha acceptedJob firstPollRejected = (None, [SubmitRequest, PollRequest]) \<and>
   solveCaptcha2CaptchaSpec acceptedJob firstPollRejected
     = (Some ''0.TOKEN'', [SubmitRequest, PollRequest, Wait 7000, PollRequest]) \<and>
   solveCaptcha2Captcha acceptedJob firstPollRejected
     \<noteq> solveCaptcha2CaptchaSpec acceptedJob firstPollRejected"
proof -
  have a: "pollLoop firstPollRejected 0 = (None, [PollRequest])"
    by (rule pollLoop_rejected [where m = "''socket hang up''"]) (simp_all add: firstPollRejected_def)
  have "pollLoopSpec firstPollRejected 1 = (Some ''0.TOKEN'', [PollRequest])"
    by (subst pollLoopSpec.simps) (simp add: firstPollRejected_def)
  then have b: "pollLoopSpec firstPollRejected 0
      = (Some ''0.TOKEN'', [PollRequest, Wait 7000, PollRequest])"
    by (subst pollLoopSpec.simps) (simp add: firstPollRejected_def)
  from a b show ?thesis
    by (simp add: solveCaptcha2Captcha_def solveCaptcha2CaptchaSpec_def acceptedJob_def)
qed

text \<open>
  C2, amended. After a job identifier is received, the status endpoint is asked at most
  15 times, with a wait of 7000 ms after every answer that is not yet ready. The first
  rejected status request ends the polling at once with absent; a completed job ends it
  with the token; and after 15 answers that are not ready the result is absent.
\<close>

theorem poll_until_settled:
  "status requestResult = 1 \<longrightarrow>
     pollCount (snd (solveCaptcha2Captcha (Got requestResult) results)) \<le> 15 \<and>
     (\<forall>k < 15. (\<forall>j < k. notReady (results j)) \<longrightarrow>
        (\<forall>m. results k = Threw m \<longrightarrow>
           solveCaptcha2Captcha (Got requestResult) results
             = (None, SubmitRequest # rounds k @ [PollRequest])) \<and>
        (\<forall>r. results k = Got r \<and> status r = 1 \<longrightarrow>
           solveCaptcha2Captcha (Got requestResult) results
             = (Some (request r), SubmitRequest # rounds k @ [PollRequest]))) \<and>
     ((\<forall>j < 15. notReady (results j)) \<longrightarrow>
        solveCaptcha2Captcha (Got requestResult) results = (None, SubmitRequest # rounds 15))"
proof (intro impI conjI allI)
  assume ok: "status requestResult = 1"
  have "pollCount (snd (pollLoop results 0)) \<le> 15"
    using pollLoop_count [of results 0] by simp
  with ok show "pollCount (snd (solveCaptcha2Captcha (Got requestResult) results)) \<le> 15"
    by (simp add: solveCaptcha2Captcha_def pollCount_simps case_prod_beta)
next
  fix k m
  assume ok: "status requestResult = 1" and k: "k < 15" and nr: "\<forall>j < k. notReady (results j)"
    and rej: "results k = Threw m"
  from k nr have "pollLoop results 0 = (case pollLoop results (0 + k) of (s, tr) \<Rightarrow> (s, rounds k @ tr))"
    by (intro pollLoop_rounds) auto
  with pollLoop_rejected [of k results m] k rej ok
  show "solveCaptcha2Captcha (Got requestResult) results
      = (None, SubmitRequest # rounds k @ [PollRequest])"
    by (simp add: solveCaptcha2Captcha_def)
next
  fix k r
  assume ok: "status requestResult = 1" and k: "k < 15" and nr: "\<forall>j < k. notReady (results j)"
    and rdy: "results k = Got r \<and> status r = 1"
  from k nr have "pollLoop results 0 = (case pollLoop results (0 + k) of (s, tr) \<Rightarrow> (s, rounds k @ tr))"
    by (intro pollLoop_rounds) auto
  with pollLoop_ready [of k results r] k rdy ok
  show "solveCaptcha2Captcha (Got requestResult) results
      = (Some (request r), SubmitRequest # rounds k @ [PollRequest])"
    by (simp add: solveCaptcha2Captcha_def)
next
  assume ok: "status requestResult = 1" and nr: "\<forall>j < 15. notReady (results j)"
  from nr have "pollLoop results 0 = (case pollLoop results (0 + 15) of (s, tr) \<Rightarrow> (s, rounds 15 @ tr))"
    by (intro pollLoop_rounds) auto
  with pollLoop_exhausted ok
  show "solveCaptcha2Captcha (Got requestResult) results = (None, SubmitRequest # rounds 15)"
    by (simp add: solveCaptcha2Captcha_def)
qed

theorem poll_until_settled_witness:
  "solveCaptcha2Captcha acceptedJob readyAtThird
     = (Some ''0.TOKEN'', [SubmitRequest, PollRequest, Wait 7000, PollRequest, Wait 7000, PollRequest]) \<and>
   solveCaptcha2Captcha acceptedJob firstPollRejected = (None, [SubmitRequest, PollRequest]) \<and>
   solveCaptcha2Captcha acceptedJob (\<lambda>k. Got \<lparr>status = 0, request = ''CAPCHA_NOT_READY''\<rparr>)
     = (None, SubmitRequest # rounds 15) \<and>
   pollCount (SubmitRequest # rounds 15) = 15"
proof -
  let ?job = "\<lparr>status = 1, request = ''74327409378''\<rparr>"
  have two: "\<forall>j < 2. notReady (readyAtThird j)"
    by (simp add: readyAtThird_def notReady_def)
  have "rounds 2 = [PollRequest, Wait 7000, PollRequest, Wait 7000]"
    by (simp add: rounds_def numeral_2_eq_2)
  with poll_until_settled [of ?job readyAtThird] two
  have a: "solveCaptcha2Captcha acceptedJob readyAtThird
     = (Some ''0.TOKEN'', [SubmitRequest, PollRequest, Wait 7000, PollRequest, Wait 7000, PollRequest])"
    by (auto simp: acceptedJob_def readyAtThird_def elim!: allE [of _ 2])
  from poll_until_settled [of ?job firstPollRejected]
  have b: "solveCaptcha2Captcha acceptedJob firstPollRejected = (None, [SubmitRequest, PollRequest])"
    by (auto simp: acceptedJob_def firstPollRejected_def rounds_def elim!: allE [of _ 0])
  from poll_until_settled [of ?job "\<lambda>k. Got \<lparr>status = 0, request = ''CAPCHA_NOT_READY''\<rparr>"]
  have c: "solveCaptcha2Captcha acceptedJob (\<lambda>k. Got \<lparr>status = 0, request = ''CAPCHA_NOT_READY''\<rparr>)
     = (None, SubmitRequest # rounds 15)"
    by (simp add: acceptedJob_def notReady_def)
  have d: "pollCount (SubmitRequest # rounds 15) = 15"
    using pollCount_rounds [of 15 "[]"] by (simp add: pollCount_simps)
  from a b c d show ?thesis by simp
qed

section \<open>Properties of the token flow\<close>

lemma missingFields_empty:
  "missingFields payload = [] \<longleftrightarrow>
     identificationType payload \<noteq> [] \<and> userCode payload \<noteq> [] \<and> companyCode payload \<noteq> []"
  by (simp add: missingFields_def)

text \<open>
  C5. When one or more of \<open>identificationType\<close>, \<open>userCode\<close>, \<open>companyCode\<close> is
  missing, the flow returns a failure whose message is the fixed prefix followed by all
  the missing names joined by commas, each missing name being listed, and the trace of
  resource actions is empty: no browser is launched. The handler answers 400.
\<close>

theorem missing_fields_fail_before_browser:
  "identificationType payload = [] \<or> userCode payload = [] \<or> companyCode payload = [] \<longrightarrow>
     dianHandle env payload =
       (\<lparr>successR = False, messageR = None,
         errorR = Some (''Campos obligatorios faltantes: '' @ joinWith '', '' (missingFields payload)),
         originR = origin payload, screenshotR = None\<rparr>, []) \<and>
     (''identificationType'' \<in> set (missingFields payload) \<longleftrightarrow> identificationType payload = []) \<and>
     (''userCode'' \<in> set (missingFields payload) \<longleftrightarrow> userCode payload = []) \<and>
     (''companyCode'' \<in> set (missingFields payload) \<longleftrightarrow> companyCode payload = []) \<and>
     (\<forall>event. dianPayloadOf event = payload \<longrightarrow>
        statusCodeD (fst (dianHandler env event)) = 400 \<and> snd (dianHandler env event) = [])"
proof
  assume miss: "identificationType payload = [] \<or> userCode payload = [] \<or> companyCode payload = []"
  then have ne: "missingFields payload \<noteq> []" by (simp add: missingFields_empty)
  then have res: "dianHandle env payload =
       (\<lparr>successR = False, messageR = None,
         errorR = Some (''Campos obligatorios faltantes: '' @ joinWith '', '' (missingFields payload)),
         originR = origin payload, screenshotR = None\<rparr>, [])"
    by (simp add: dianHandle_def validatePayload_def failure_def)
  have names:
    "''identificationType'' \<in> set (missingFields payload) \<longleftrightarrow> identificationType payload = []"
    "''userCode'' \<in> set (missingFields payload) \<longleftrightarrow> userCode payload = []"
    "''companyCode'' \<in> set (missingFields payload) \<longleftrightarrow> companyCode payload = []"
    by (simp_all add: missingFields_def)
  have "\<forall>event. dianPayloadOf event = payload \<longrightarrow>
        statusCodeD (fst (dianHandler env event)) = 400 \<and> snd (dianHandler env event) = []"
    by (simp add: dianHandler_def res)
  with res names show "dianHandle env payload =
       (\<lparr>successR = False, messageR = None,
         errorR = Some (''Campos obligatorios faltantes: '' @ joinWith '', '' (missingFields payload)),
         originR = origin payload, screenshotR = None\<rparr>, []) \<and>
     (''identificationType'' \<in> set (missingFields payload) \<longleftrightarrow> identificationType payload = []) \<and>
     (''userCode'' \<in> set (missingFields payload) \<longleftrightarrow> userCode payload = []) \<and>
     (''companyCode'' \<in> set (missingFields payload) \<longleftrightarrow> companyCode payload = []) \<and>
     (\<forall>event. dianPayloadOf event = payload \<longrightarrow>
        statusCodeD (fst (dianHandler env event)) = 400 \<and> snd (dianHandler env event) = [])"
    by blast
qed

theorem missing_fields_fail_before_browser_witness:
  "dianHandle (dianEnv [successTick])
     \<lparr>identificationType = ''10910094'', userCode = [], companyCode = [], origin = Some ''test'',
      headlessD = Some True\<rparr> =
     (\<lparr>successR = False, messageR = None,
       errorR = Some ''Campos obligatorios faltantes: userCode, companyCode'',
       originR = Some ''test'', screenshotR = None\<rparr>, []) \<and>
   statusCodeD (fst (dianHandler (dianEnv [successTick])
     (aliasEvent\<lparr>ev_UserCode := JNull, ev_CompanyCode := JUndefined\<rparr>))) = 400 \<and>
   snd (dianHandler (dianEnv [successTick])
     (aliasEvent\<lparr>ev_UserCode := JNull, ev_CompanyCode := JUndefined\<rparr>)) = []"
proof -
  let ?p = "\<lparr>identificationType = ''10910094'', userCode = [], companyCode = [],
             origin = Some ''test'', headlessD = Some True\<rparr>"
  have p: "dianPayloadOf (aliasEvent\<lparr>ev_UserCode := JNull, ev_CompanyCode := JUndefined\<rparr>) = ?p"
    by (simp add: dianPayloadOf_def aliasEvent_def coalesce_def nullish_def)
  from missing_fields_fail_before_browser [of ?p "dianEnv [successTick]"] p
  show ?thesis by (simp add: missingFields_def)
qed

lemma successTick_polls:
  "waitForResultMessage [successTick] = Inr ''Correo enviado''"
proof -
  have "successMessage successTick = Some ''Correo enviado''"
    by (simp add: successTick_def quietTick_def successMessage_def trim_examples)
  then have "pollTick \<lparr>lastModalError = None, lastBlockedRedirects = 0\<rparr> successTick
      = Return ''Correo enviado''"
    by (simp add: pollTick_def truthy_def liveError_def successTick_def quietTick_def
        noModal_def consumeStoredModalError_def getModalState_def readModalError_def)
  then show ?thesis by (simp add: waitForResultMessage_def)
qed

text \<open>
  C9. The handler answers with what the flow returns for the payload whose fields
  \<open>identificationType\<close>, \<open>userCode\<close>, \<open>companyCode\<close> are each the documented
  property when it is present (neither undefined nor null), otherwise the alias when
  that is present, otherwise the empty string: status 200 when the flow succeeds, 400
  otherwise. An event that supplies only the aliases is answered exactly as the event
  that supplies the same values under the documented names; and when the three aliases
  are present and not empty and the flow runs to a success message on the payload made
  of the alias values, the answer is 200 with that message.
\<close>

theorem aliases_accepted:
  "(let payload =
      \<lparr>identificationType =
         (if \<not> nullish (ev_identificationType event) then toStringJs (ev_identificationType event)
          else if \<not> nullish (ev_CompanyIdentificationType event)
          then toStringJs (ev_CompanyIdentificationType event) else []),
       userCode =
         (if \<not> nullish (ev_userCode event) then toStringJs (ev_userCode event)
          else if \<not> nullish (ev_UserCode event) then toStringJs (ev_UserCode event) else []),
       companyCode =
         (if \<not> nullish (ev_companyCode event) then toStringJs (ev_companyCode event)
          else if \<not> nullish (ev_CompanyCode event) then toStringJs (ev_CompanyCode event) else []),
       origin = (if truthyJs (ev_origin event) then Some (toStringJs (ev_origin event)) else None),
       headlessD = Some (normalizeBoolean (ev_headlessD event) True)\<rparr>
    in dianHandler env event =
         (\<lparr>statusCodeD = (if successR (fst (dianHandle env payload)) then 200 else 400),
           bodyD = fst (dianHandle env payload)\<rparr>,
          snd (dianHandle env payload))) \<and>
   (nullish (ev_identificationType event) \<and> nullish (ev_userCode event) \<and>
    nullish (ev_companyCode event) \<longrightarrow>
      dianHandler env event = dianHandler env (aliasesAsDocumented event)) \<and>
   (nullish (ev_identificationType event) \<and> nullish (ev_userCode event) \<and>
    nullish (ev_companyCode event) \<and>
    \<not> nullish (ev_CompanyIdentificationType event) \<and>
    toStringJs (ev_CompanyIdentificationType event) \<noteq> [] \<and>
    \<not> nullish (ev_UserCode event) \<and> toStringJs (ev_UserCode event) \<noteq> [] \<and>
    \<not> nullish (ev_CompanyCode event) \<and> toStringJs (ev_CompanyCode event) \<noteq> [] \<and>
    initializeBrowserOutcome env = Got () \<and> contextOutcome env = Got () \<and>
    pageOutcome env = Got () \<and>
    onPage env
      \<lparr>identificationType = toStringJs (ev_CompanyIdentificationType event),
       userCode = toStringJs (ev_UserCode event),
       companyCode = toStringJs (ev_CompanyCode event),
       origin = (if truthyJs (ev_origin event) then Some (toStringJs (ev_origin event)) else None),
       headlessD = Some (normalizeBoolean (ev_headlessD event) True)\<rparr> = Inr msg
    \<longrightarrow>
      dianHandler env event =
        (\<lparr>statusCodeD = 200,
          bodyD = \<lparr>successR = True, messageR = Some msg, errorR = None,
                   originR = (if truthyJs (ev_origin event) then Some (toStringJs (ev_origin event))
                              else None),
                   screenshotR = None\<rparr>\<rparr>,
         [LaunchBrowser, NewContext, NewPage, ClosePage, CloseContext, CloseBrowser]))"
proof (intro conjI)
  have payload: "dianPayloadOf event =
      \<lparr>identificationType =
         (if \<not> nullish (ev_identificationType event) then toStringJs (ev_identificationType event)
          else if \<not> nullish (ev_CompanyIdentificationType event)
          then toStringJs (ev_CompanyIdentificationType event) else []),
       userCode =
         (if \<not> nullish (ev_userCode event) then toStringJs (ev_userCode event)
          else if \<not> nullish (ev_UserCode event) then toStringJs (ev_UserCode event) else []),
       companyCode =
         (if \<not> nullish (ev_companyCode event) then toStringJs (ev_companyCode event)
          else if \<not> nullish (ev_CompanyCode event) then toStringJs (ev_CompanyCode event) else []),
       origin = (if truthyJs (ev_origin event) then Some (toStringJs (ev_origin event)) else None),
       headlessD = Some (normalizeBoolean (ev_headlessD event) True)\<rparr>"
    by (simp add: dianPayloadOf_def coalesce_def)
  show "let payload =
      \<lparr>identificationType =
         (if \<not> nullish (ev_identificationType event) then toStringJs (ev_identificationType event)
          else if \<not> nullish (ev_CompanyIdentificationType event)
          then toStringJs (ev_CompanyIdentificationType event) else []),
       userCode =
         (if \<not> nullish (ev_userCode event) then toStringJs (ev_userCode event)
          else if \<not> nullish (ev_UserCode event) then toStringJs (ev_UserCode event) else []),
       companyCode =
         (if \<not> nullish (ev_companyCode event) then toStringJs (ev_companyCode event)
          else if \<not> nullish (ev_CompanyCode event) then toStringJs (ev_CompanyCode event) else []),
       origin = (if truthyJs (ev_origin event) then Some (toStringJs (ev_origin event)) else None),
       headlessD = Some (normalizeBoolean (ev_headlessD event) True)\<rparr>
    in dianHandler env event =
         (\<lparr>statusCodeD = (if successR (fst (dianHandle env payload)) then 200 else 400),
           bodyD = fst (dianHandle env payload)\<rparr>,
          snd (dianHandle env payload))"
    unfolding Let_def payload [symmetric]
    by (simp add: dianHandler_def case_prod_beta)
  have "nullish (ev_identificationType event) \<and> nullish (ev_userCode event) \<and>
    nullish (ev_companyCode event) \<longrightarrow>
      dianPayloadOf event = dianPayloadOf (aliasesAsDocumented event)"
    by (auto simp: dianPayloadOf_def aliasesAsDocumented_def coalesce_def nullish_def)
  then show "nullish (ev_identificationType event) \<and> nullish (ev_userCode event) \<and>
    nullish (ev_companyCode event) \<longrightarrow>
      dianHandler env event = dianHandler env (aliasesAsDocumented event)"
    by (auto simp: dianHandler_def)
  show "nullish (ev_identificationType event) \<and> nullish (ev_userCode event) \<and>
    nullish (ev_companyCode event) \<and>
    \<not> nullish (ev_CompanyIdentificationType event) \<and>
    toStringJs (ev_CompanyIdentificationType event) \<noteq> [] \<and>
    \<not> nullish (ev_UserCode event) \<and> toStringJs (ev_UserCode event) \<noteq> [] \<and>
    \<not> nullish (ev_CompanyCode event) \<and> toStringJs (ev_CompanyCode event) \<noteq> [] \<and>
    initializeBrowserOutcome env = Got () \<and> contextOutcome env = Got () \<and>
    pageOutcome env = Got () \<and>
    onPage env
      \<lparr>identificationType = toStringJs (ev_CompanyIdentificationType event),
       userCode = toStringJs (ev_UserCode event),
       companyCode = toStringJs (ev_CompanyCode event),
       origin = (if truthyJs (ev_origin event) then Some (toStringJs (ev_origin event)) else None),
       headlessD = Some (normalizeBoolean (ev_headlessD event) True)\<rparr> = Inr msg
    \<longrightarrow>
      dianHandler env event =
        (\<lparr>statusCodeD = 200,
          bodyD = \<lparr>successR = True, messageR = Some msg, errorR = None,
                   originR = (if truthyJs (ev_origin event) then Some (toStringJs (ev_origin event))
                              else None),
                   screenshotR = None\<rparr>\<rparr>,
         [LaunchBrowser, NewContext, NewPage, ClosePage, CloseContext, CloseBrowser])"
  proof
    assume h: "nullish (ev_identificationType event) \<and> nullish (ev_userCode event) \<and>
      nullish (ev_companyCode event) \<and>
      \<not> nullish (ev_CompanyIdentificationType event) \<and>
      toStringJs (ev_CompanyIdentificationType event) \<noteq> [] \<and>
      \<not> nullish (ev_UserCode event) \<and> toStringJs (ev_UserCode event) \<noteq> [] \<and>
      \<not> nullish (ev_CompanyCode event) \<and> toStringJs (ev_CompanyCode event) \<noteq> [] \<and>
      initializeBrowserOutcome env = Got () \<and> contextOutcome env = Got () \<and>
      pageOutcome env = Got () \<and>
      onPage env
        \<lparr>identificationType = toStringJs (ev_CompanyIdentificationType event),
         userCode = toStringJs (ev_UserCode event),
         companyCode = toStringJs (ev_CompanyCode event),
         origin = (if truthyJs (ev_origin event) then Some (toStringJs (ev_origin event)) else None),
         headlessD = Some (normalizeBoolean (ev_headlessD event) True)\<rparr> = Inr msg"
    let ?p = "\<lparr>identificationType = toStringJs (ev_CompanyIdentificationType event),
         userCode = toStringJs (ev_UserCode event),
         companyCode = toStringJs (ev_CompanyCode event),
         origin = (if truthyJs (ev_origin event) then Some (toStringJs (ev_origin event)) else None),
         headlessD = Some (normalizeBoolean (ev_headlessD event) True)\<rparr>"
    from h have p: "dianPayloadOf event = ?p" by (simp add: payload)
    from h have v: "validatePayload ?p = None"
      by (simp add: validatePayload_def missingFields_def)
    from h v have "dianHandle env ?p =
        (\<lparr>successR = True, messageR = Some msg, errorR = None, originR = origin ?p,
          screenshotR = None\<rparr>,
         [LaunchBrowser, NewContext, NewPage, ClosePage, CloseContext, CloseBrowser])"
      by (simp add: dianHandle_def)
    with p show "dianHandler env event =
        (\<lparr>statusCodeD = 200,
          bodyD = \<lparr>successR = True, messageR = Some msg, errorR = None,
                   originR = (if truthyJs (ev_origin event) then Some (toStringJs (ev_origin event))
                              else None),
                   screenshotR = None\<rparr>\<rparr>,
         [LaunchBrowser, NewContext, NewPage, ClosePage, CloseContext, CloseBrowser])"
      by (simp add: dianHandler_def)
  qed
qed

theorem aliases_accepted_witness:
  "nullish (ev_identificationType aliasEvent) \<and> nullish (ev_userCode aliasEvent) \<and>
   nullish (ev_companyCode aliasEvent) \<and>
   ev_identificationType (aliasesAsDocumented aliasEvent) = JString ''10910094'' \<and>
   ev_CompanyIdentificationType (aliasesAsDocumented aliasEvent) = JUndefined \<and>
   dianHandler (dianEnv [successTick]) aliasEvent
     = dianHandler (dianEnv [successTick]) (aliasesAsDocumented aliasEvent) \<and>
   dianHandler (dianEnv [successTick]) aliasEvent =
     (\<lparr>statusCodeD = 200,
       bodyD = \<lparr>successR = True, messageR = Some ''Correo enviado'', errorR = None,
                originR = Some ''test'', screenshotR = None\<rparr>\<rparr>,
      [LaunchBrowser, NewContext, NewPage, ClosePage, CloseContext, CloseBrowser]) \<and>
   fst (dianHandler (dianEnv [successTick])
          (aliasEvent\<lparr>ev_identificationType := JString ''31'',
                      ev_CompanyCode := JUndefined\<rparr>)) =
     \<lparr>statusCodeD = 400,
      bodyD = \<lparr>successR = False, messageR = None,
               errorR = Some ''Campos obligatorios faltantes: companyCode'',
               originR = Some ''test'', screenshotR = None\<rparr>\<rparr>"
proof -
  let ?env = "dianEnv [successTick]"
  have n: "nullish (ev_identificationType aliasEvent) \<and> nullish (ev_userCode aliasEvent) \<and>
   nullish (ev_companyCode aliasEvent)"
    by (simp add: aliasEvent_def nullish_def)
  from aliases_accepted [of aliasEvent ?env] n
  have same: "dianHandler ?env aliasEvent = dianHandler ?env (aliasesAsDocumented aliasEvent)"
    by blast
  have moved: "ev_identificationType (aliasesAsDocumented aliasEvent) = JString ''10910094'' \<and>
   ev_CompanyIdentificationType (aliasesAsDocumented aliasEvent) = JUndefined"
    by (simp add: aliasesAsDocumented_def aliasEvent_def)
  have run: "onPage ?env
      \<lparr>identificationType = ''10910094'', userCode = ''1010168874'', companyCode = ''901827899'',
       origin = Some ''test'', headlessD = Some True\<rparr> = Inr ''Correo enviado''"
    by (simp add: onPage_def dianEnv_def successTick_polls)
  have world: "initializeBrowserOutcome ?env = Got ()" "contextOutcome ?env = Got ()"
    "pageOutcome ?env = Got ()"
    by (simp_all add: dianEnv_def)
  from aliases_accepted [of aliasEvent ?env "''Correo enviado''", THEN conjunct2, THEN conjunct2]
    run world
  have ok: "dianHandler ?env aliasEvent =
     (\<lparr>statusCodeD = 200,
       bodyD = \<lparr>successR = True, messageR = Some ''Correo enviado'', errorR = None,
                originR = Some ''test'', screenshotR = None\<rparr>\<rparr>,
      [LaunchBrowser, NewContext, NewPage, ClosePage, CloseContext, CloseBrowser])"
    by (simp add: aliasEvent_def nullish_def)
  let ?e = "aliasEvent\<lparr>ev_identificationType := JString ''31'', ev_CompanyCode := JUndefined\<rparr>"
  from aliases_accepted [of ?e ?env, THEN conjunct1]
  have "dianHandler ?env ?e =
      (\<lparr>statusCodeD =
          (if successR (fst (dianHandle ?env
             \<lparr>identificationType = ''31'', userCode = ''1010168874'', companyCode = [],
              origin = Some ''test'', headlessD = Some True\<rparr>)) then 200 else 400),
        bodyD = fst (dianHandle ?env
             \<lparr>identificationType = ''31'', userCode = ''1010168874'', companyCode = [],
              origin = Some ''test'', headlessD = Some True\<rparr>)\<rparr>,
       snd (dianHandle ?env
             \<lparr>identificationType = ''31'', userCode = ''1010168874'', companyCode = [],
              origin = Some ''test'', headlessD = Some True\<rparr>))"
    by (simp add: aliasEvent_def nullish_def Let_def)
  then have bad: "fst (dianHandler ?env ?e) =
     \<lparr>statusCodeD = 400,
      bodyD = \<lparr>successR = False, messageR = None,
               errorR = Some ''Campos obligatorios faltantes: companyCode'',
               originR = Some ''test'', screenshotR = None\<rparr>\<rparr>"
    by (simp add: dianHandle_def validatePayload_def missingFields_def failure_def)
  from n moved same ok bad show ?thesis by simp
qed

section \<open>Properties of the outcome poller\<close>

lemma quietTick_reads:
  "consumeStoredModalError quietTick = None"
  "getModalState quietTick = Some \<lparr>lastError = None, blockedRedirects = []\<rparr>"
  "liveError (getModalState quietTick) = None"
  "readModalError (modalReading quietTick) = None"
  "successMessage quietTick = None"
  "thrownInErrorCheck quietTick = None"
  "isClosed quietTick = False"
  "thrownInSelectionCheck st quietTick = None"
  "waitOutcome quietTick = Got ()"
  by (simp_all add: quietTick_def noModal_def consumeStoredModalError_def getModalState_def
      liveError_def readModalError_def successMessage_def thrownInErrorCheck_def
      extractErrorMessage_def selectorText_def thrownInSelectionCheck_def truthy_def)

lemma successAndAlertTick_reads:
  "consumeStoredModalError successAndAlertTick = None"
  "liveError (getModalState successAndAlertTick) = None"
  "readModalError (modalReading successAndAlertTick) = None"
  "successMessage successAndAlertTick = Some ''Correo enviado''"
  "alertSignal successAndAlertTick = Some ''Usuario no autorizado''"
  by (simp_all add: successAndAlertTick_def successTick_def quietTick_def noModal_def
      consumeStoredModalError_def getModalState_def liveError_def readModalError_def
      successMessage_def alertSignal_def selectorText_def trim_examples)

text \<open>
  C1, as stated, fails: in an iteration where the success alert reads
  \<open>Correo enviado\<close> and the error alert reads \<open>Usuario no autorizado\<close>, the poller
  returns the success message.
\<close>

theorem alert_with_success_counterexample:
  "alertSignal successAndAlertTick = Some ''Usuario no autorizado'' \<and>
   successMessage successAndAlertTick = Some ''Correo enviado'' \<and>
   pollTick \<lparr>lastModalError = None, lastBlockedRedirects = 0\<rparr> successAndAlertTick
     = Return ''Correo enviado'' \<and>
   waitForResultMessage [successAndAlertTick] = Inr ''Correo enviado''"
  by (simp add: waitForResultMessage_def pollTick_def successAndAlertTick_reads truthy_def)

text \<open>
  C1, amended. In every iteration of the poller, whatever its state: when a persisted
  observer error, a live observer error or a visible error modal is present, the
  iteration throws that error message (the first of the three in this order), also when
  a success message is present, and the poller fails with it; when none of the three is
  present and the success message is not empty, the success message is returned, the
  error alert and toast not having been read yet.
\<close>

theorem modal_error_wins_over_success:
  "(modalSignal t \<noteq> None \<longrightarrow>
      pollTick st t = Fail (the (modalSignal t)) \<and>
      pollTick st t \<noteq> Return (the (successMessage t)) \<and>
      waitLoop st (t # rest) = Inl (the (modalSignal t))) \<and>
   (modalSignal t = None \<and> successMessage t = Some msg \<longrightarrow>
      pollTick st t = Return msg \<and> waitLoop st (t # rest) = Inr msg)"
proof (intro conjI impI)
  assume sig: "modalSignal t \<noteq> None"
  then show f: "pollTick st t = Fail (the (modalSignal t))"
    by (auto simp: modalSignal_def pollTick_def Let_def split: if_splits)
  then show "pollTick st t \<noteq> Return (the (successMessage t))" by simp
  from f show "waitLoop st (t # rest) = Inl (the (modalSignal t))" by simp
next
  assume "modalSignal t = None \<and> successMessage t = Some msg"
  then have quiet: "\<not> truthy (consumeStoredModalError t)" "\<not> truthy (liveError (getModalState t))"
    "\<not> truthy (readModalError (modalReading t))" and msg: "successMessage t = Some msg"
    by (auto simp: modalSignal_def truthy_def split: if_splits option.splits)
  then show r: "pollTick st t = Return msg"
    by (simp add: pollTick_def Let_def)
  then show "waitLoop st (t # rest) = Inr msg" by simp
qed

lemma successAndModalTick_reads:
  "consumeStoredModalError successAndModalTick = None"
  "liveError (getModalState successAndModalTick) = None"
  "readModalError (modalReading successAndModalTick) = Some ''Error - NIT no registrado''"
  "successMessage successAndModalTick = Some ''Correo enviado''"
  by (simp_all add: successAndModalTick_def successTick_def quietTick_def noModal_def
      consumeStoredModalError_def getModalState_def liveError_def readModalError_def
      successMessage_def isVisible_def modalText_def trim_examples)

theorem modal_error_wins_over_success_witness:
  "modalSignal successAndModalTick = Some ''Error - NIT no registrado'' \<and>
   successMessage successAndModalTick = Some ''Correo enviado'' \<and>
   waitForResultMessage [successAndModalTick] = Inl ''Error - NIT no registrado'' \<and>
   modalSignal successAndAlertTick = None \<and>
   waitForResultMessage [quietTick, successAndAlertTick, successAndModalTick] = Inr ''Correo enviado'' \<and>
   successMessage blankSuccessTick = None \<and>
   waitForResultMessage [blankSuccessTick, successAndAlertTick] = Inr ''Correo enviado''"
proof -
  have blank: "successMessage blankSuccessTick = None"
    by (simp add: blankSuccessTick_def quietTick_def successMessage_def trim_examples)
  have bq: "pollTick \<lparr>lastModalError = None, lastBlockedRedirects = 0\<rparr> blankSuccessTick
      = Continue \<lparr>lastModalError = None, lastBlockedRedirects = 0\<rparr>"
    using blank
    by (simp add: pollTick_def truthy_def liveError_def blankSuccessTick_def quietTick_def
        noModal_def consumeStoredModalError_def getModalState_def readModalError_def
        thrownInErrorCheck_def extractErrorMessage_def selectorText_def
        thrownInSelectionCheck_def)
  let ?st = "\<lparr>lastModalError = None, lastBlockedRedirects = 0\<rparr>"
  have m: "modalSignal successAndModalTick = Some ''Error - NIT no registrado''"
    by (simp add: modalSignal_def successAndModalTick_reads truthy_def)
  with modal_error_wins_over_success [where t = successAndModalTick and st = ?st and rest = "[]"]
  have a: "waitForResultMessage [successAndModalTick] = Inl ''Error - NIT no registrado''"
    by (simp add: waitForResultMessage_def)
  have n: "modalSignal successAndAlertTick = None"
    by (simp add: modalSignal_def successAndAlertTick_reads truthy_def)
  have q: "pollTick ?st quietTick = Continue ?st"
    by (simp add: pollTick_def quietTick_reads truthy_def liveError_def)
  from modal_error_wins_over_success
    [where t = successAndAlertTick and msg = "''Correo enviado''" and st = ?st
       and rest = "[successAndModalTick]"] n
  have "waitLoop ?st [successAndAlertTick, successAndModalTick] = Inr ''Correo enviado''"
    by (simp add: successAndAlertTick_reads)
  with q have b: "waitForResultMessage [quietTick, successAndAlertTick, successAndModalTick]
      = Inr ''Correo enviado''"
    by (simp add: waitForResultMessage_def)
  from modal_error_wins_over_success
    [where t = successAndAlertTick and msg = "''Correo enviado''" and st = ?st and rest = "[]"] n
  have "waitLoop ?st [successAndAlertTick] = Inr ''Correo enviado''"
    by (simp add: successAndAlertTick_reads)
  with bq have e: "waitForResultMessage [blankSuccessTick, successAndAlertTick] = Inr ''Correo enviado''"
    by (simp add: waitForResultMessage_def)
  from m a n b blank e show ?thesis by (simp add: successAndModalTick_reads)
qed

section \<open>Properties of the modal guard\<close>

lemma captureModal_marker [simp]: "dianModalState (captureModal a pg) = dianModalState pg"
  by (simp add: captureModal_def)

lemma captureModal_document [simp]: "document (captureModal a pg) = document pg"
  by (simp add: captureModal_def)

lemma captureModal_hidden: "\<not> isModalVisible (document pg) \<Longrightarrow> captureModal a pg = pg"
  by (simp add: captureModal_def)

lemma captureModal_visible:
  "isModalVisible (document pg) \<Longrightarrow>
     captureModal a pg =
       pg\<lparr>stateObjects :=
            (stateObjects pg)[a := (stateObjects pg ! a)\<lparr>lastError := Some (capturedText (document pg))\<rparr>],
          storedError := Some (capturedText (document pg))\<rparr>"
  by (simp add: captureModal_def)

lemma runSetup_marker: "dianModalState (runSetup pg) \<noteq> None"
  by (simp add: runSetup_def Let_def)

lemma initScript_marked: "dianModalState pg \<noteq> None \<Longrightarrow> initScript pg = pg"
  by (simp add: initScript_def)

lemma initScript_loaded: "\<not> readyStateLoading pg \<Longrightarrow> initScript (initScript pg) = initScript pg"
  by (simp add: initScript_def runSetup_marker)

lemma simLoaded_iff:
  "simLoaded d s \<longleftrightarrow>
     (\<exists>o1 o2.
        stateObjects s = [o2] \<and> stateObjects d = [o1, o2] \<and>
        dianModalState s = Some 0 \<and> dianModalState d = Some 1 \<and>
        observers s = [0] \<and> observers d = [0, 1] \<and>
        document d = document s \<and> storedError d = storedError s \<and>
        pendingSetups d = 0 \<and> pendingSetups s = 0 \<and>
        locationAssign s = Wrapper 0 ''assign'' Native \<and>
        locationAssign d = Wrapper 1 ''assign'' (Wrapper 0 ''assign'' Native) \<and>
        locationReplace s = Wrapper 0 ''replace'' Native \<and>
        locationReplace d = Wrapper 1 ''replace'' (Wrapper 0 ''replace'' Native) \<and>
        locationReload s = Wrapper 0 ''reload'' Native \<and>
        locationReload d = Wrapper 1 ''reload'' (Wrapper 0 ''reload'' Native))"
proof -
  have one: "length (stateObjects s) = 1 \<longleftrightarrow> (\<exists>o2. stateObjects s = [o2])"
    by (cases "stateObjects s") auto
  have two: "length (stateObjects d) = 2 \<longleftrightarrow> (\<exists>o1 o2. stateObjects d = [o1, o2])"
    by (auto simp: numeral_2_eq_2 length_Suc_conv)
  show ?thesis
    unfolding simLoaded_def one two by auto
qed

lemma simLoaded_observed:
  "simLoaded d s \<Longrightarrow> observedState d = observedState s \<and> storedError d = storedError s"
  by (auto simp: simLoaded_iff observedState_def)

lemma simLoading_observed:
  "simLoading d s \<Longrightarrow> observedState d = observedState s \<and> storedError d = storedError s"
  by (auto simp: simLoading_def observedState_def)

lemma simLoaded_step:
  assumes "simLoaded d s"
  shows "snd (step e d) = snd (step e s) \<and>
         (if snd (step e s)
          then observedState (fst (step e d)) = observedState (fst (step e s)) \<and>
               storedError (fst (step e d)) = storedError (fst (step e s))
          else simLoaded (fst (step e d)) (fst (step e s)))"
proof (cases e)
  case DomContentLoaded
  with assms show ?thesis by (auto simp: simLoaded_iff)
next
  case (DomChange doc)
  with assms show ?thesis by (auto simp: simLoaded_iff)
next
  case MutationsDelivered
  show ?thesis
  proof (cases "isModalVisible (document s)")
    case True
    with assms MutationsDelivered show ?thesis
      by (auto simp: simLoaded_iff captureModal_visible)
  next
    case False
    with assms MutationsDelivered show ?thesis
      by (auto simp: simLoaded_iff captureModal_hidden)
  qed
next
  case (Navigate name arguments now)
  show ?thesis
  proof (cases "isModalVisible (document s)")
    case True
    with assms Navigate show ?thesis
      by (cases name) (auto simp: simLoaded_iff captureModal_visible Let_def)
  next
    case False
    with assms Navigate show ?thesis
      by (cases name) (auto simp: simLoaded_iff captureModal_hidden Let_def observedState_def)
  qed
next
  case ConsumeStored
  with assms show ?thesis by (auto simp: simLoaded_iff)
qed

lemma simLoading_step:
  assumes "simLoading d s"
  shows "snd (step e d) = snd (step e s) \<and>
         (if snd (step e s)
          then observedState (fst (step e d)) = observedState (fst (step e s)) \<and>
               storedError (fst (step e d)) = storedError (fst (step e s))
          else simLoading (fst (step e d)) (fst (step e s)) \<or>
               simLoaded (fst (step e d)) (fst (step e s)))"
proof (cases e)
  case DomContentLoaded
  show ?thesis
  proof (cases "isModalVisible (document s)")
    case True
    with assms DomContentLoaded show ?thesis
      by (auto simp: simLoading_def simLoaded_iff runSetup_def Let_def captureModal_visible
          numeral_2_eq_2)
  next
    case False
    with assms DomContentLoaded show ?thesis
      by (auto simp: simLoading_def simLoaded_iff runSetup_def Let_def captureModal_hidden
          numeral_2_eq_2)
  qed
next
  case (DomChange doc)
  with assms show ?thesis by (auto simp: simLoading_def)
next
  case MutationsDelivered
  with assms show ?thesis by (auto simp: simLoading_def)
next
  case (Navigate name arguments now)
  with assms show ?thesis
    by (cases name) (auto simp: simLoading_def observedState_def)
next
  case ConsumeStored
  with assms show ?thesis by (auto simp: simLoading_def)
qed

lemma sim_runEvents:
  "simLoading d s \<or> simLoaded d s \<Longrightarrow>
     observation (runEvents evs d) = observation (runEvents evs s)"
proof (induction evs arbitrary: d s)
  case Nil
  then show ?case
    using simLoading_observed simLoaded_observed by (auto simp: observation_def)
next
  case (Cons e evs)
  obtain d' nd where d': "step e d = (d', nd)" by (cases "step e d")
  obtain s' ns where s': "step e s = (s', ns)" by (cases "step e s")
  from Cons.prems have st: "nd = ns \<and>
      (if ns then observedState d' = observedState s' \<and> storedError d' = storedError s'
       else simLoading d' s' \<or> simLoaded d' s')"
    using simLoading_step [of d s e] simLoaded_step [of d s e] d' s' by auto
  show ?case
  proof (cases ns)
    case True
    with st d' s' show ?thesis by (simp add: observation_def)
  next
    case False
    with st have "simLoading d' s' \<or> simLoaded d' s'" by simp
    from Cons.IH [OF this] False st d' s' show ?thesis by simp
  qed
qed

lemma loadingPage_installs:
  "initScript loadingPage = loadingPage\<lparr>pendingSetups := Suc 0\<rparr>"
  "initScript (loadingPage\<lparr>pendingSetups := Suc 0\<rparr>) = loadingPage\<lparr>pendingSetups := Suc (Suc 0)\<rparr>"
  "\<not> isModalVisible (document loadingPage)"
  by (simp_all add: initScript_def loadingPage_def newDocument_def isModalVisible_def)

text \<open>
  C8, as stated, fails: on a document that is still loading the second installation is
  not a no-op. It registers a second deferred setup, and when the document has loaded
  the navigation functions are wrapped twice and two observers are installed.
\<close>

theorem second_installation_counterexample:
  "initScript (initScript loadingPage) \<noteq> initScript loadingPage \<and>
   pendingSetups (initScript (initScript loadingPage)) = 2 \<and>
   pendingSetups (initScript loadingPage) = 1 \<and>
   locationAssign (fst (step DomContentLoaded (initScript (initScript loadingPage))))
     = Wrapper 1 ''assign'' (Wrapper 0 ''assign'' Native) \<and>
   locationAssign (fst (step DomContentLoaded (initScript loadingPage)))
     = Wrapper 0 ''assign'' Native \<and>
   observers (fst (step DomContentLoaded (initScript (initScript loadingPage)))) = [0, 1] \<and>
   observers (fst (step DomContentLoaded (initScript loadingPage))) = [0]"
proof -
  have "pendingSetups (initScript (initScript loadingPage)) \<noteq> pendingSetups (initScript loadingPage)"
    by (simp add: loadingPage_installs)
  then have ne: "initScript (initScript loadingPage) \<noteq> initScript loadingPage" by metis
  show ?thesis using ne
    by (simp add: loadingPage_installs runSetup_def Let_def captureModal_hidden numeral_2_eq_2)
       (simp add: loadingPage_def newDocument_def)
qed

text \<open>
  C8, amended. The second installation is a no-op on every page where the marker is
  set, hence on every page whose document is not loading when the script is installed
  twice. And on every new document, loading or not, after any sequence of page events
  the error field, the log of blocked transitions, the persisted error and the outcome
  of the navigation calls are the same with two installations as with one.
\<close>

theorem second_installation_not_observable:
  "(dianModalState pg \<noteq> None \<longrightarrow> initScript pg = pg) \<and>
   (\<not> readyStateLoading pg \<longrightarrow> initScript (initScript pg) = initScript pg) \<and>
   observation (runEvents evs (initScript (initScript (newDocument doc stored isLoading))))
     = observation (runEvents evs (initScript (newDocument doc stored isLoading)))"
proof (intro conjI impI)
  assume "dianModalState pg \<noteq> None"
  then show "initScript pg = pg" by (rule initScript_marked)
next
  assume "\<not> readyStateLoading pg"
  then show "initScript (initScript pg) = initScript pg" by (rule initScript_loaded)
next
  show "observation (runEvents evs (initScript (initScript (newDocument doc stored isLoading))))
     = observation (runEvents evs (initScript (newDocument doc stored isLoading)))"
  proof (cases isLoading)
    case False
    then have "initScript (initScript (newDocument doc stored isLoading))
        = initScript (newDocument doc stored isLoading)"
      by (intro initScript_loaded) (simp add: newDocument_def)
    then show ?thesis by simp
  next
    case True
    then have "simLoading (initScript (initScript (newDocument doc stored isLoading)))
        (initScript (newDocument doc stored isLoading))"
      by (simp add: simLoading_def initScript_def newDocument_def)
    then show ?thesis by (intro sim_runEvents) simp
  qed
qed

lemma modalDocument_reads:
  "isModalVisible modalDocument"
  "capturedText modalDocument = ''Error - NIT no registrado''"
  by (simp_all add: modalDocument_def isModalVisible_def isVisible_def capturedText_def
      modalText_def trim_examples)

lemma one_installation_blocks:
  "observation (runEvents [DomContentLoaded, Navigate Assign [''/User/Login''] 7]
      (initScript (newDocument modalDocument None True)))
   = (Some \<lparr>lastError = Some ''Error - NIT no registrado'',
            blockedRedirects = [\<lparr>fn = ''assign'', ts = 7, args = [''/User/Login'']\<rparr>]\<rparr>,
      Some ''Error - NIT no registrado'', False)"
  by (simp add: initScript_def newDocument_def runSetup_def Let_def captureModal_def
      modalDocument_reads observation_def observedState_def truthy_def)

theorem second_installation_not_observable_witness:
  "dianModalState (fst (step DomContentLoaded (initScript loadingPage))) \<noteq> None \<and>
   initScript (fst (step DomContentLoaded (initScript loadingPage)))
     = fst (step DomContentLoaded (initScript loadingPage)) \<and>
   \<not> readyStateLoading (newDocument modalDocument None False) \<and>
   initScript (initScript (newDocument modalDocument None False))
     = initScript (newDocument modalDocument None False) \<and>
   observation (runEvents [DomContentLoaded, Navigate Assign [''/User/Login''] 7]
      (initScript (initScript (newDocument modalDocument None True))))
   = (Some \<lparr>lastError = Some ''Error - NIT no registrado'',
            blockedRedirects = [\<lparr>fn = ''assign'', ts = 7, args = [''/User/Login'']\<rparr>]\<rparr>,
      Some ''Error - NIT no registrado'', False)"
proof -
  let ?p = "fst (step DomContentLoaded (initScript loadingPage))"
  let ?q = "newDocument modalDocument None False"
  let ?evs = "[DomContentLoaded, Navigate Assign [''/User/Login''] 7]"
  have m: "dianModalState ?p \<noteq> None"
    by (simp add: loadingPage_installs runSetup_marker)
  have l: "\<not> readyStateLoading ?q" by (simp add: newDocument_def)
  from second_installation_not_observable [of ?p ?evs modalDocument None True] m
  have a: "initScript ?p = ?p" by blast
  from second_installation_not_observable [of ?q ?evs modalDocument None True] l
  have b: "initScript (initScript ?q) = initScript ?q" by blast
  from second_installation_not_observable [of ?q ?evs modalDocument None True]
  have c: "observation (runEvents ?evs (initScript (initScript (newDocument modalDocument None True))))
     = observation (runEvents ?evs (initScript (newDocument modalDocument None True)))"
    by blast
  from m a l b c show ?thesis by (simp only: one_installation_blocks simp_thms)
qed

end
